theory Spec2Isabelle
  imports Main "HOL-Library.Sublist"
begin

section \<open>Data model (model.go)\<close>

subsection \<open>Errors\<close>

text \<open>
  Every failure of the Go code is an \<open>error\<close> value carrying a message. The constructors
  name the origin of the error: the four kinds built with \<open>fmt.Errorf\<close> in model.go
  (\<open>FormatError\<close>, \<open>UnknownTypeError\<close>, \<open>UnsupportedSchemeError\<close>, \<open>NoSignatureError\<close>),
  and the errors handed through from the collaborators: the file system (\<open>IOError\<close>),
  encoding/json (\<open>JSONError\<close>), the canonicalizer (\<open>CanonicalizationError\<close>), the
  signing backend (\<open>SigningError\<close>) and the verifying backend (\<open>InvalidSignatureError\<close>).
\<close>

datatype error =
    IOError string
  | JSONError string
  | FormatError string
  | UnknownTypeError string
  | UnsupportedSchemeError string
  | NoSignatureError string
  | CanonicalizationError string
  | SigningError string
  | InvalidSignatureError string

subsection \<open>JSON documents\<close>

text \<open>
  A parsed JSON text. The members of an object are kept in document order, duplicates
  included; a number keeps its literal. The same tree stands for a \<open>json.RawMessage\<close>
  (the bytes of a sub-document) and for the \<open>interface{}\<close> value encoding/json decodes
  it to.
\<close>

datatype json =
    JNull
  | JBool bool
  | JNumber string
  | JString string
  | JArray "json list"
  | JObject "(string \<times> json) list"

text \<open>
  encoding/json stores the members of an object into a Go map one after the other, so
  of two members with the same key the later one stays.
\<close>

fun lookup_last :: "(string \<times> json) list \<Rightarrow> string \<Rightarrow> json option" where
  "lookup_last [] k = None"
| "lookup_last ((k', v) # kvs) k =
     (case lookup_last kvs k of
        Some v' \<Rightarrow> Some v'
      | None \<Rightarrow> (if k' = k then Some v else None))"

subsection \<open>Key material\<close>

record KeyVal =
  Private :: string
  Public :: string

record Key =
  KeyId :: string
  KeyIdHashAlgorithms :: "string list"
  KeyType :: string
  KeyVal :: KeyVal
  Scheme :: string

text \<open>
  The fields of \<open>Signature\<close> are \<open>KeyId\<close> and \<open>Sig\<close> in the source; the first is
  written \<open>SigKeyId\<close> here, apart from the field \<open>KeyId\<close> of \<open>Key\<close>.
\<close>

record Signature =
  SigKeyId :: string
  Sig :: string

subsection \<open>Payload types\<close>

record Link =
  LinkType :: string
  LinkName :: string
  Materials :: "string \<rightharpoonup> json"
  Products :: "string \<rightharpoonup> json"
  ByProducts :: "string \<rightharpoonup> json"
  Command :: "string list"
  Environment :: "string \<rightharpoonup> json"

record SupplyChainItem =
  Name :: string
  ExpectedMaterials :: "string list list"
  ExpectedProducts :: "string list list"

record Inspection = SupplyChainItem +
  InspectionType :: string
  Run :: "string list"

record Step = SupplyChainItem +
  StepType :: string
  PubKeys :: "string list"
  ExpectedCommand :: "string list"
  Threshold :: int

record Layout =
  LayoutType :: string
  Steps :: "Step list"
  Inspect :: "Inspection list"
  Keys :: "string \<rightharpoonup> Key"
  Expires :: string
  Readme :: string

subsection \<open>Metablock\<close>

text \<open>
  The field \<open>Signed\<close> is an \<open>interface{}\<close>: nil in the zero Metablock, a Link or a
  Layout once \<open>Load\<close> has filled it.
\<close>

datatype signable =
    SignedNil
  | SignedLink Link
  | SignedLayout Layout

record Metablock =
  Signed :: signable
  Signatures :: "Signature list"

section \<open>Utilities (util.go)\<close>

subsection \<open>subsetCheck\<close>

text \<open>
  The inner loop of \<open>subsetCheck\<close>: it looks for \<open>sub\<close> in \<open>superset\<close> and leaves by
  \<open>continue OUTER\<close> (here \<open>True\<close>) at the first equal element.
\<close>

fun subsetCheck_inner :: "string \<Rightarrow> string list \<Rightarrow> bool" where
  "subsetCheck_inner sub [] = False"
| "subsetCheck_inner sub (super # supers) =
     (if sub = super then True else subsetCheck_inner sub supers)"

text \<open>The outer loop: \<open>return false\<close> at the first element the inner loop does not find.\<close>

fun subsetCheck :: "string list \<Rightarrow> string list \<Rightarrow> bool" where
  "subsetCheck [] supers = True"
| "subsetCheck (sub # subs) supers =
     (if subsetCheck_inner sub supers then subsetCheck subs supers else False)"

section \<open>Signing and verifying (model.go)\<close>

text \<open>
  The functions of the package that model.go calls and that are kept in other files
  are parameters of the model. Each returns an error message (\<open>Inl\<close>, or \<open>Some\<close> for
  \<open>VerifySignature_func\<close>) or its result:
  \<^item> \<open>encodeCanonical\<close>: the canonical JSON bytes of a Signed value;
  \<^item> \<open>generateEd25519Signature\<close>: the ed25519 signing backend;
  \<^item> \<open>VerifySignature_func\<close>: the package-level function \<open>VerifySignature(key, sig, data)\<close>
    (the method of the same name on Metablock is \<open>VerifySignature\<close> below).
\<close>

record collaborators =
  encodeCanonical :: "signable \<Rightarrow> string + string"
  generateEd25519Signature :: "string \<Rightarrow> Key \<Rightarrow> string + Signature"
  VerifySignature_func :: "Key \<Rightarrow> Signature \<Rightarrow> string \<Rightarrow> string option"

definition GetSignableRepresentation :: "collaborators \<Rightarrow> Metablock \<Rightarrow> error + string" where
  "GetSignableRepresentation env mb =
     (case encodeCanonical env (Signed mb) of
        Inl msg \<Rightarrow> Inl (CanonicalizationError msg)
      | Inr dataCanonical \<Rightarrow> Inr dataCanonical)"

text \<open>\<open>Signature{}\<close>, the zero value that \<open>var sig Signature\<close> starts from.\<close>

definition Signature_zero :: Signature where
  "Signature_zero = \<lparr>SigKeyId = [], Sig = []\<rparr>"

text \<open>
  The loop of \<open>VerifySignature\<close>: \<open>sig\<close> becomes the first signature whose key id is
  the key's (\<open>break\<close>), and stays the zero value when the loop ends without one.
\<close>

fun VerifySignature_scan :: "Signature list \<Rightarrow> Key \<Rightarrow> Signature" where
  "VerifySignature_scan [] key = Signature_zero"
| "VerifySignature_scan (s # ss) key =
     (if SigKeyId s = KeyId key then s else VerifySignature_scan ss key)"

definition VerifySignature :: "collaborators \<Rightarrow> Metablock \<Rightarrow> Key \<Rightarrow> error option" where
  "VerifySignature env mb key =
     (let sig = VerifySignature_scan (Signatures mb) key in
      if sig = Signature_zero
      then Some (NoSignatureError
                   (''No signature found for key '' @ [CHR 0x27] @ KeyId key @ [CHR 0x27]))
      else
        (case GetSignableRepresentation env mb of
           Inl err \<Rightarrow> Some err
         | Inr dataCanonical \<Rightarrow>
             (case VerifySignature_func env key sig dataCanonical of
                Some msg \<Rightarrow> Some (InvalidSignatureError msg)
              | None \<Rightarrow> None)))"

text \<open>
  \<open>Sign\<close> works on the Metablock behind its pointer receiver: the model returns the
  error (or \<open>None\<close> for nil) together with the Metablock as the call leaves it.
\<close>

definition Sign :: "collaborators \<Rightarrow> Metablock \<Rightarrow> Key \<Rightarrow> error option \<times> Metablock" where
  "Sign env mb key =
     (case GetSignableRepresentation env mb of
        Inl err \<Rightarrow> (Some err, mb)
      | Inr dataCanonical \<Rightarrow>
          if KeyType key = ''ed25519'' \<and> Scheme key = ''ed25519''
          then
            (case generateEd25519Signature env dataCanonical key of
               Inl msg \<Rightarrow> (Some (SigningError msg), mb)
             | Inr newSignature \<Rightarrow>
                 (None, mb\<lparr>Signatures := Signatures mb @ [newSignature]\<rparr>))
          else
            (Some (UnsupportedSchemeError
                     ''This key type or signature scheme is not supported yet!''), mb))"

text \<open>
  Modelled from the spec: \<open>generateEd25519Signature\<close> is defined outside model.go and
  util.go. The spec says of the backend that it "returns a Signature tagged with the
  key's id"; the signature bytes come from the ed25519 primitive \<open>sign\<close>, a parameter.
\<close>

definition generateEd25519Signature_spec ::
  "(string \<Rightarrow> Key \<Rightarrow> string + string) \<Rightarrow> string \<Rightarrow> Key \<Rightarrow> string + Signature" where
  "generateEd25519Signature_spec sign dataCanonical key =
     (case sign dataCanonical key of
        Inl msg \<Rightarrow> Inl msg
      | Inr sigbytes \<Rightarrow> Inr \<lparr>SigKeyId = KeyId key, Sig = sigbytes\<rparr>)"

text \<open>An error message names a key id when the key id occurs in it.\<close>

definition names_key_id :: "string \<Rightarrow> string \<Rightarrow> bool" where
  "names_key_id msg kid = sublist kid msg"

section \<open>Loading (model.go)\<close>

text \<open>
  What \<open>Load\<close> asks of the operating system and of encoding/json are parameters of the
  model. An error is the message of the Go error.
  \<^item> \<open>readFile\<close>: \<open>os.Open\<close> followed by \<open>ioutil.ReadAll\<close>, the bytes of the file;
  \<^item> \<open>parseJSON\<close>: the JSON text as a tree, or the syntax error of \<open>json.Unmarshal\<close>;
  \<^item> \<open>unmarshalSignatures\<close>: \<open>json.Unmarshal\<close> of a sub-document into the slice
    \<open>mb.Signatures\<close>; it is given the slice as it is before the call and returns it as the
    call has left it, also when it reports an error;
  \<^item> \<open>unmarshalLink\<close>, \<open>unmarshalLayout\<close>: \<open>json.Unmarshal\<close> of a sub-document into a
    zero Link, a zero Layout.
\<close>

record decoders =
  readFile :: "string \<Rightarrow> string + string"
  parseJSON :: "string \<Rightarrow> string + json"
  unmarshalSignatures :: "json \<Rightarrow> Signature list \<Rightarrow> string option \<times> Signature list"
  unmarshalLink :: "json \<Rightarrow> string + Link"
  unmarshalLayout :: "json \<Rightarrow> string + Layout"

text \<open>The word by which an \<open>UnmarshalTypeError\<close> of encoding/json names a JSON value.\<close>

fun json_kind :: "json \<Rightarrow> string" where
  "json_kind JNull = ''null''"
| "json_kind (JBool b) = ''bool''"
| "json_kind (JNumber n) = ''number''"
| "json_kind (JString s) = ''string''"
| "json_kind (JArray xs) = ''array''"
| "json_kind (JObject members) = ''object''"

text \<open>
  \<open>json.Unmarshal(jsonBytes, &rawMb)\<close> with \<open>rawMb\<close> a \<open>map[string]*json.RawMessage\<close>: an
  object gives the map of its members, where a member \<open>null\<close> is the nil pointer; the
  document \<open>null\<close> leaves the map nil; any other document is a type error. A nil pointer
  and a key that is not in the map read the same (\<open>rawMb[k] == nil\<close>): \<open>None\<close>.
\<close>

definition rawMb_of :: "(string \<times> json) list \<Rightarrow> string \<Rightarrow> json option" where
  "rawMb_of members k = (case lookup_last members k of Some JNull \<Rightarrow> None | r \<Rightarrow> r)"

definition unmarshalRawMb :: "json \<Rightarrow> error + (string \<Rightarrow> json option)" where
  "unmarshalRawMb doc =
     (case doc of
        JObject members \<Rightarrow> Inr (rawMb_of members)
      | JNull \<Rightarrow> Inr (\<lambda>k. None)
      | _ \<Rightarrow> Inl (JSONError (''json: cannot unmarshal '' @ json_kind doc
                   @ '' into Go value of type map[string]*json.RawMessage'')))"

text \<open>
  \<open>json.Unmarshal(*rawMb["signed"], &signed)\<close> with \<open>signed\<close> a
  \<open>map[string]interface{}\<close>: the map of the members of an object.
\<close>

definition unmarshalSigned :: "json \<Rightarrow> error + (string \<Rightarrow> json option)" where
  "unmarshalSigned raw =
     (case raw of
        JObject members \<Rightarrow> Inr (lookup_last members)
      | JNull \<Rightarrow> Inr (\<lambda>k. None)
      | _ \<Rightarrow> Inl (JSONError (''json: cannot unmarshal '' @ json_kind raw
                   @ '' into Go value of type map[string]interface {}'')))"

text \<open>
  \<open>Load\<close> fills the Metablock behind its pointer receiver: the model returns the error
  (\<open>None\<close> for nil) and the Metablock as the call leaves it. The comparison
  \<open>signed["_type"] == "link"\<close> of an \<open>interface{}\<close> with a string holds when the member is
  a JSON string with these characters.
\<close>

definition Load :: "decoders \<Rightarrow> string \<Rightarrow> Metablock \<Rightarrow> error option \<times> Metablock" where
  "Load env path mb =
     (case readFile env path of
        Inl msg \<Rightarrow> (Some (IOError msg), mb)
      | Inr jsonBytes \<Rightarrow>
     (case parseJSON env jsonBytes of
        Inl msg \<Rightarrow> (Some (JSONError msg), mb)
      | Inr doc \<Rightarrow>
     (case unmarshalRawMb doc of
        Inl err \<Rightarrow> (Some err, mb)
      | Inr rawMb \<Rightarrow>
     (case rawMb ''signed'' of
        None \<Rightarrow> (Some (FormatError
                   ''In-toto metadata requires 'signed' and 'signatures' parts''), mb)
      | Some signedRaw \<Rightarrow>
     (case rawMb ''signatures'' of
        None \<Rightarrow> (Some (FormatError
                   ''In-toto metadata requires 'signed' and 'signatures' parts''), mb)
      | Some signaturesRaw \<Rightarrow>
     (case unmarshalSignatures env signaturesRaw (Signatures mb) of
        (Some msg, sigs) \<Rightarrow> (Some (JSONError msg), mb\<lparr>Signatures := sigs\<rparr>)
      | (None, sigs) \<Rightarrow>
     (let mb1 = mb\<lparr>Signatures := sigs\<rparr> in
     (case unmarshalSigned signedRaw of
        Inl err \<Rightarrow> (Some err, mb1)
      | Inr signed \<Rightarrow>
          if signed ''_type'' = Some (JString ''link'')
          then
            (case unmarshalLink env signedRaw of
               Inl msg \<Rightarrow> (Some (JSONError msg), mb1)
             | Inr link \<Rightarrow> (None, mb1\<lparr>Signed := SignedLink link\<rparr>))
          else if signed ''_type'' = Some (JString ''layout'')
          then
            (case unmarshalLayout env signedRaw of
               Inl msg \<Rightarrow> (Some (JSONError msg), mb1)
             | Inr layout \<Rightarrow> (None, mb1\<lparr>Signed := SignedLayout layout\<rparr>))
          else
            (Some (UnknownTypeError
                     (''The '_type' field of the 'signed' part of in-toto''
                      @ '' metadata must be one of 'link' or 'layout'' @ [CHR 0x27])),
             mb1)))))))))"

subsection \<open>Sample collaborators\<close>

text \<open>
  A small stand-in for encoding/json, for running \<open>Load\<close> on sample documents: the file
  at every path holds the document \<open>doc\<close>; the signatures decoder reads the empty
  array only, the Link decoder the member \<open>name\<close>, the Layout decoder the members
  \<open>expires\<close> and \<open>readme\<close>.
\<close>

definition sample_string :: "json \<Rightarrow> string \<Rightarrow> string" where
  "sample_string raw k =
     (case raw of
        JObject members \<Rightarrow>
          (case lookup_last members k of Some (JString s) \<Rightarrow> s | _ \<Rightarrow> [])
      | _ \<Rightarrow> [])"

definition sample_decoders :: "json \<Rightarrow> decoders" where
  "sample_decoders doc =
     \<lparr>readFile = (\<lambda>path. Inr ''bytes of the file''),
      parseJSON = (\<lambda>jsonBytes. Inr doc),
      unmarshalSignatures =
        (\<lambda>raw sigs. case raw of JArray [] \<Rightarrow> (None, [])
                     | _ \<Rightarrow> (Some ''json: not read by the sample decoder'', sigs)),
      unmarshalLink =
        (\<lambda>raw. Inr \<lparr>LinkType = sample_string raw ''_type'',
                      LinkName = sample_string raw ''name'',
                      Materials = Map.empty, Products = Map.empty, ByProducts = Map.empty,
                      Command = [], Environment = Map.empty\<rparr>),
      unmarshalLayout =
        (\<lambda>raw. Inr \<lparr>LayoutType = sample_string raw ''_type'',
                      Steps = [], Inspect = [], Keys = Map.empty,
                      Expires = sample_string raw ''expires'',
                      Readme = sample_string raw ''readme''\<rparr>)\<rparr>"

definition sample_envelope :: "(string \<times> json) list \<Rightarrow> json" where
  "sample_envelope members' = JObject [(''signed'', JObject members'), (''signatures'', JArray [])]"

section \<open>Sets (util.go)\<close>

subsection \<open>Map objects and references\<close>

text \<open>
  A \<open>Set\<close> is a Go map, \<open>map[string]struct{}\<close>: a reference to a map object, or nil.
  Two Set values may refer to the same object, and \<open>Add\<close> and \<open>Remove\<close> change the
  object in place, so the map objects are kept in a store: \<open>maps\<close> holds the keys of every map
  object made so far, the object's address being its index, and \<open>make\<close> appends a new
  one. The keys of an object are listed in the order in which \<open>range\<close> visits them; Go
  leaves that order open, and nothing proved below depends on it. The store also
  holds \<open>stdout\<close>, the bytes written by \<open>fmt.Printf\<close>.
\<close>

record store =
  maps :: "string list list"
  stdout :: string

datatype Set = SetNil | SetRef nat

text \<open>A Set value of a running program is nil or refers to an object of the store.\<close>

definition live :: "store \<Rightarrow> Set \<Rightarrow> bool" where
  "live w s = (case s of SetNil \<Rightarrow> True | SetRef a \<Rightarrow> a < length (maps w))"

text \<open>The keys that \<open>range s\<close> visits; a nil map has none.\<close>

definition keys_of :: "store \<Rightarrow> Set \<Rightarrow> string list" where
  "keys_of w s =
     (case s of
        SetNil \<Rightarrow> []
      | SetRef a \<Rightarrow> (if a < length (maps w) then maps w ! a else []))"

text \<open>\<open>make(map[string]struct{})\<close>.\<close>

definition make_map :: "store \<Rightarrow> Set \<times> store" where
  "make_map w = (SetRef (length (maps w)), w\<lparr>maps := maps w @ [[]]\<rparr>)"

text \<open>An assignment to an entry of a nil map is a run-time panic.\<close>

datatype panic = NilMapAssignment

definition Has :: "store \<Rightarrow> Set \<Rightarrow> string \<Rightarrow> bool" where
  "Has w s elem = (elem \<in> set (keys_of w s))"

definition Add :: "Set \<Rightarrow> string \<Rightarrow> store \<Rightarrow> panic + store" where
  "Add s elem w =
     (case s of
        SetNil \<Rightarrow> Inl NilMapAssignment
      | SetRef a \<Rightarrow>
          Inr (if elem \<in> set (keys_of w s) then w
               else w\<lparr>maps := (maps w)[a := keys_of w s @ [elem]]\<rparr>))"

definition Remove :: "Set \<Rightarrow> string \<Rightarrow> store \<Rightarrow> store" where
  "Remove s elem w =
     (case s of
        SetNil \<Rightarrow> w
      | SetRef a \<Rightarrow> w\<lparr>maps := (maps w)[a := removeAll elem (keys_of w s)]\<rparr>)"

fun NewSet_loop :: "string list \<Rightarrow> Set \<Rightarrow> store \<Rightarrow> panic + store" where
  "NewSet_loop [] s w = Inr w"
| "NewSet_loop (elem # elems) s w =
     (case Add s elem w of
        Inl p \<Rightarrow> Inl p
      | Inr w' \<Rightarrow> NewSet_loop elems s w')"

definition NewSet :: "string list \<Rightarrow> store \<Rightarrow> panic + (Set \<times> store)" where
  "NewSet elems w =
     (case make_map w of
        (s, w1) \<Rightarrow>
          (case NewSet_loop elems s w1 of
             Inl p \<Rightarrow> Inl p
           | Inr w2 \<Rightarrow> Inr (s, w2)))"

subsection \<open>Intersection and Difference\<close>

text \<open>
  The loops run over the keys of \<open>s\<close> as they are when the loop starts; the body reads
  \<open>s2\<close> in the store of the moment and writes to \<open>res\<close>.
\<close>

fun Intersection_loop :: "string list \<Rightarrow> Set \<Rightarrow> Set \<Rightarrow> store \<Rightarrow> panic + store" where
  "Intersection_loop [] s2 res w = Inr w"
| "Intersection_loop (elem # elems) s2 res w =
     (if Has w s2 elem = False then Intersection_loop elems s2 res w
      else
        (case Add res elem w of
           Inl p \<Rightarrow> Inl p
         | Inr w' \<Rightarrow> Intersection_loop elems s2 res w'))"

definition Intersection :: "Set \<Rightarrow> Set \<Rightarrow> store \<Rightarrow> panic + (Set \<times> store)" where
  "Intersection s s2 w =
     (case NewSet [] w of
        Inl p \<Rightarrow> Inl p
      | Inr (res, w1) \<Rightarrow>
          (case Intersection_loop (keys_of w1 s) s2 res w1 of
             Inl p \<Rightarrow> Inl p
           | Inr w2 \<Rightarrow> Inr (res, w2)))"

fun Difference_loop :: "string list \<Rightarrow> Set \<Rightarrow> Set \<Rightarrow> store \<Rightarrow> panic + store" where
  "Difference_loop [] s2 res w = Inr w"
| "Difference_loop (elem # elems) s2 res w =
     (if Has w s2 elem then Difference_loop elems s2 res w
      else
        (case Add res elem w of
           Inl p \<Rightarrow> Inl p
         | Inr w' \<Rightarrow> Difference_loop elems s2 res w'))"

definition Difference :: "Set \<Rightarrow> Set \<Rightarrow> store \<Rightarrow> panic + (Set \<times> store)" where
  "Difference s s2 w =
     (case NewSet [] w of
        Inl p \<Rightarrow> Inl p
      | Inr (res, w1) \<Rightarrow>
          (case Difference_loop (keys_of w1 s) s2 res w1 of
             Inl p \<Rightarrow> Inl p
           | Inr w2 \<Rightarrow> Inr (res, w2)))"

subsection \<open>The glob matcher of path/filepath\<close>

text \<open>
  \<open>Filter\<close> calls \<open>filepath.Match\<close> of Go's standard library. The functions below follow
  its algorithm on a system whose path separator is the slash: \<open>Match\<close> splits the
  pattern into chunks at the stars (\<open>scanChunk\<close>) and matches each chunk at the front of
  the name (\<open>matchChunk\<close>), a star standing for a run of bytes without a separator.
  Strings are byte lists here and every byte is taken as one rune, which is what the
  library does on ASCII text.
\<close>

definition Separator :: char where
  "Separator = CHR ''/''"

definition ErrBadPattern :: string where
  "ErrBadPattern = ''syntax error in pattern''"

text \<open>The first loop of \<open>scanChunk\<close>: the leading stars.\<close>

fun scanChunk_stars :: "string \<Rightarrow> bool \<Rightarrow> bool \<times> string" where
  "scanChunk_stars [] star = (star, [])"
| "scanChunk_stars (c # pattern) star =
     (if c = CHR ''*'' then scanChunk_stars pattern True else (star, c # pattern))"

text \<open>
  The second loop: the chunk runs up to the next star outside a bracket; an escaped
  byte is skipped. The result is the chunk and what follows it.
\<close>

fun scanChunk_scan :: "string \<Rightarrow> bool \<Rightarrow> string \<times> string" where
  "scanChunk_scan [] inrange = ([], [])"
| "scanChunk_scan (c # pattern) inrange =
     (if c = CHR 0x5C then
        (case pattern of
           [] \<Rightarrow> ([c], [])
         | e # pattern' \<Rightarrow>
             (case scanChunk_scan pattern' inrange of (chunk, rest) \<Rightarrow> (c # e # chunk, rest)))
      else if c = CHR ''['' then
        (case scanChunk_scan pattern True of (chunk, rest) \<Rightarrow> (c # chunk, rest))
      else if c = CHR '']'' then
        (case scanChunk_scan pattern False of (chunk, rest) \<Rightarrow> (c # chunk, rest))
      else if c = CHR ''*'' \<and> \<not> inrange then ([], c # pattern)
      else
        (case scanChunk_scan pattern inrange of (chunk, rest) \<Rightarrow> (c # chunk, rest)))"

definition scanChunk :: "string \<Rightarrow> bool \<times> string \<times> string" where
  "scanChunk pattern =
     (case scanChunk_stars pattern False of
        (star, pattern') \<Rightarrow>
          (case scanChunk_scan pattern' False of (chunk, rest) \<Rightarrow> (star, chunk, rest)))"

text \<open>\<open>len(chunk) > 0 && chunk[0] == c\<close>.\<close>

fun starts_with :: "char \<Rightarrow> string \<Rightarrow> bool" where
  "starts_with c [] = False"
| "starts_with c (x # chunk) = (x = c)"

text \<open>
  \<open>getEsc\<close> reads one possibly escaped byte of a character class: the rune and the
  rest of the chunk, which must not be empty.
\<close>

definition getEsc :: "string \<Rightarrow> string + (nat \<times> string)" where
  "getEsc chunk =
     (case chunk of
        [] \<Rightarrow> Inl ErrBadPattern
      | c # chunk1 \<Rightarrow>
          if c = CHR ''-'' \<or> c = CHR '']'' then Inl ErrBadPattern
          else
            (case (if c = CHR 0x5C then chunk1 else chunk) of
               [] \<Rightarrow> Inl ErrBadPattern
             | r # nchunk \<Rightarrow>
                 if nchunk = [] then Inl ErrBadPattern else Inr (of_char r, nchunk)))"

lemma getEsc_rest:
  "getEsc chunk = Inr (r, nchunk) \<Longrightarrow> nchunk \<noteq> [] \<and> length nchunk < length chunk"
  by (auto simp: getEsc_def split: list.splits if_splits)

text \<open>
  The loop of \<open>matchChunk\<close> over the ranges of a character class \<open>[...]\<close>, up to the
  closing bracket: whether a range holds the rune \<open>r\<close>, and the chunk after the bracket.
\<close>

function matchChunk_ranges :: "string \<Rightarrow> nat \<Rightarrow> bool \<Rightarrow> nat \<Rightarrow> string + (bool \<times> string)" where
  "matchChunk_ranges chunk r match nrange =
     (if starts_with (CHR '']'') chunk \<and> nrange > 0 then Inr (match, tl chunk)
      else
        (case getEsc chunk of
           Inl err \<Rightarrow> Inl err
         | Inr (lo, chunk1) \<Rightarrow>
             if starts_with (CHR ''-'') chunk1 then
               (case getEsc (tl chunk1) of
                  Inl err \<Rightarrow> Inl err
                | Inr (hi, chunk2) \<Rightarrow>
                    matchChunk_ranges chunk2 r (match \<or> (lo \<le> r \<and> r \<le> hi)) (Suc nrange))
             else matchChunk_ranges chunk1 r (match \<or> (lo \<le> r \<and> r \<le> lo)) (Suc nrange)))"
  by pat_completeness auto
termination
  by (relation "measure (\<lambda>(chunk, r, m, n). length chunk)")
     (auto dest!: getEsc_rest)

lemma matchChunk_ranges_rest:
  "matchChunk_ranges chunk r match nrange = Inr (match', rest) \<Longrightarrow> length rest < length chunk"
proof (induction chunk r match nrange rule: matchChunk_ranges.induct)
  case (1 chunk r match nrange)
  show ?case
  proof (cases "starts_with (CHR '']'') chunk \<and> nrange > 0")
    case True
    with "1.prems" show ?thesis by (cases chunk) auto
  next
    case False
    with "1.prems" obtain lo chunk1 where e1: "getEsc chunk = Inr (lo, chunk1)"
      by (auto split: sum.splits)
    note l1 = getEsc_rest [OF e1]
    show ?thesis
    proof (cases "starts_with (CHR ''-'') chunk1")
      case True
      with "1.prems" False e1 obtain hi chunk2 where e2: "getEsc (tl chunk1) = Inr (hi, chunk2)"
        by (auto split: sum.splits)
      from "1.prems" False e1 True e2
      have "matchChunk_ranges chunk2 r (match \<or> (lo \<le> r \<and> r \<le> hi)) (Suc nrange) = Inr (match', rest)"
        by simp
      from "1.IH"(1) [OF False e1 refl True e2 refl this] getEsc_rest [OF e2] l1
      show ?thesis by (cases chunk1) auto
    next
      case F2: False
      from "1.prems" False e1 F2
      have "matchChunk_ranges chunk1 r (match \<or> (lo \<le> r \<and> r \<le> lo)) (Suc nrange) = Inr (match', rest)"
        by simp
      from "1.IH"(2) [OF False e1 refl F2 this] l1
      show ?thesis by simp
    qed
  qed
qed

text \<open>
  The loop of \<open>matchChunk\<close>. Its variables \<open>s\<close> and \<open>failed\<close> are one value here: \<open>Some s\<close>
  while the match has not failed, \<open>None\<close> once it has (the loop then goes on through
  the chunk to check that it is well formed, and no longer reads \<open>s\<close>). A match fails
  at the latest when \<open>s\<close> is empty and the chunk is not.
\<close>

fun front :: "string option \<Rightarrow> (char \<times> string) option" where
  "front None = None"
| "front (Some []) = None"
| "front (Some (x # s)) = Some (x, s)"

function matchChunk_loop :: "string \<Rightarrow> string option \<Rightarrow> string + string option" where
  "matchChunk_loop [] cur = Inr cur"
| "matchChunk_loop (c # chunk) cur =
     (if c = CHR ''['' then
        (let r = (case front cur of Some (x, s) \<Rightarrow> of_char x | None \<Rightarrow> 0);
             negated = starts_with (CHR ''^'') chunk;
             chunk1 = (if negated then tl chunk else chunk)
         in
           (case matchChunk_ranges chunk1 r False 0 of
              Inl err \<Rightarrow> Inl err
            | Inr (match, chunk2) \<Rightarrow>
                matchChunk_loop chunk2
                  (case front cur of
                     Some (x, s) \<Rightarrow> if match = negated then None else Some s
                   | None \<Rightarrow> None)))
      else if c = CHR ''?'' then
        matchChunk_loop chunk
          (case front cur of
             Some (x, s) \<Rightarrow> if x = Separator then None else Some s
           | None \<Rightarrow> None)
      else if c = CHR 0x5C then
        (case chunk of
           [] \<Rightarrow> Inl ErrBadPattern
         | e # chunk' \<Rightarrow>
             matchChunk_loop chunk'
               (case front cur of
                  Some (x, s) \<Rightarrow> if e \<noteq> x then None else Some s
                | None \<Rightarrow> None))
      else
        matchChunk_loop chunk
          (case front cur of
             Some (x, s) \<Rightarrow> if c \<noteq> x then None else Some s
           | None \<Rightarrow> None))"
  by pat_completeness auto
termination
proof (relation "measure (\<lambda>(chunk, cur). length chunk)")
  fix c :: char and chunk :: string and cur :: "string option"
    and x xa xb x2 xc y
  assume "xa = starts_with (CHR ''^'') chunk" "xb = (if xa then tl chunk else chunk)"
    and "matchChunk_ranges xb x False 0 = Inr x2" "(xc, y) = x2"
  then have "length y < length xb"
    using matchChunk_ranges_rest [of xb x False 0 xc y] by simp
  moreover have "length xb \<le> length chunk"
    using \<open>xb = (if xa then tl chunk else chunk)\<close> by simp
  ultimately show "((y, case front cur of None \<Rightarrow> None
                        | Some (x, s) \<Rightarrow> if xc = xa then None else Some s),
                    c # chunk, cur) \<in> measure (\<lambda>(chunk, cur). length chunk)"
    by simp
qed auto

text \<open>
  \<open>matchChunk(chunk, s)\<close>: an error, or \<open>Some rest\<close> when the chunk matches the front of
  \<open>s\<close> (\<open>ok\<close>), or \<open>None\<close>.
\<close>

definition matchChunk :: "string \<Rightarrow> string \<Rightarrow> string + string option" where
  "matchChunk chunk s = matchChunk_loop chunk (Some s)"

text \<open>
  The inner loop of \<open>Match\<close>, for a chunk that follows a star: it skips one more byte
  of the name at a time, never a separator, until the chunk matches; \<open>final\<close> says that
  no pattern is left after the chunk, and then the match must use up the name. The
  result \<open>Some t\<close> is the name to go on with (\<open>continue Pattern\<close>), \<open>None\<close> is no match.
\<close>

fun Match_star :: "string \<Rightarrow> bool \<Rightarrow> string \<Rightarrow> string + string option" where
  "Match_star chunk final [] = Inr None"
| "Match_star chunk final (c # name) =
     (if c = Separator then Inr None
      else
        (case matchChunk chunk name of
           Inl err \<Rightarrow> Inl err
         | Inr (Some t) \<Rightarrow>
             if final \<and> t \<noteq> [] then Match_star chunk final name else Inr (Some t)
         | Inr None \<Rightarrow> Match_star chunk final name))"

lemma scanChunk_stars_rest:
  "scanChunk_stars pattern star = (star', pattern') \<Longrightarrow>
   length pattern' \<le> length pattern \<and> (starts_with (CHR ''*'') pattern \<longrightarrow> length pattern' < length pattern)
   \<and> \<not> starts_with (CHR ''*'') pattern'"
  by (induction pattern star rule: scanChunk_stars.induct) (auto split: if_splits)

lemma scanChunk_scan_le:
  "scanChunk_scan pattern inrange = (chunk, rest) \<Longrightarrow> length rest \<le> length pattern"
proof (induction pattern inrange arbitrary: chunk rest rule: scanChunk_scan.induct)
  case (1 inrange)
  then show ?case by simp
next
  case (2 c pattern inrange)
  show ?case
  proof (cases "c = CHR 0x5C")
    case True
    show ?thesis
    proof (cases pattern)
      case Nil
      with True "2.prems" show ?thesis by simp
    next
      case (Cons e pattern')
      obtain chunk' rest' where r: "scanChunk_scan pattern' inrange = (chunk', rest')"
        by (cases "scanChunk_scan pattern' inrange")
      from "2.IH"(1) [OF True Cons r] True Cons r "2.prems" show ?thesis by simp
    qed
  next
    case nb: False
    show ?thesis
    proof (cases "c = CHR ''[''")
      case True
      obtain chunk' rest' where r: "scanChunk_scan pattern True = (chunk', rest')"
        by (cases "scanChunk_scan pattern True")
      from "2.IH"(2) [OF nb True r] nb True r "2.prems" show ?thesis by simp
    next
      case no: False
      show ?thesis
      proof (cases "c = CHR '']''")
        case True
        obtain chunk' rest' where r: "scanChunk_scan pattern False = (chunk', rest')"
          by (cases "scanChunk_scan pattern False")
        from "2.IH"(3) [OF nb no True r] nb no True r "2.prems" show ?thesis by simp
      next
        case nc: False
        show ?thesis
        proof (cases "c = CHR ''*'' \<and> \<not> inrange")
          case True
          with nb no nc "2.prems" show ?thesis by simp
        next
          case ns: False
          obtain chunk' rest' where r: "scanChunk_scan pattern inrange = (chunk', rest')"
            by (cases "scanChunk_scan pattern inrange")
          from "2.IH"(4) [OF nb no nc ns r] nb no nc ns r "2.prems" show ?thesis by auto
        qed
      qed
    qed
  qed
qed

lemma scanChunk_scan_rest:
  assumes "scanChunk_scan (c # pattern) False = (chunk, rest)" and "c \<noteq> CHR ''*''"
  shows "length rest < Suc (length pattern)"
proof -
  have le: "scanChunk_scan p i = (ch, r) \<Longrightarrow> length r < Suc (length p)" for p i ch r
    using scanChunk_scan_le [of p i ch r] by simp
  have le2: "scanChunk_scan p i = (ch, r) \<Longrightarrow> length r < Suc (Suc (length p))" for p i ch r
    using scanChunk_scan_le [of p i ch r] by simp
  from assms show ?thesis
    by (auto split: if_splits list.splits prod.splits dest: le le2)
qed

lemma scanChunk_rest:
  assumes "scanChunk pattern = (star, chunk, rest)" and "pattern \<noteq> []"
  shows "length rest < length pattern"
proof -
  obtain star' pattern' where a: "scanChunk_stars pattern False = (star', pattern')"
    by (cases "scanChunk_stars pattern False")
  with assms(1) have b: "scanChunk_scan pattern' False = (chunk, rest)"
    by (auto simp: scanChunk_def split: prod.splits)
  note sa = scanChunk_stars_rest [OF a] and sb = scanChunk_scan_le [OF b]
  show ?thesis
  proof (cases "starts_with (CHR ''*'') pattern")
    case True
    with sa sb show ?thesis by simp
  next
    case False
    with a assms(2) obtain c p where p: "pattern = c # p" "c \<noteq> CHR ''*''" "pattern' = pattern"
      by (cases pattern) auto
    with b scanChunk_scan_rest [of c p chunk rest] show ?thesis by simp
  qed
qed

text \<open>
  The last loop of \<open>Match\<close>, run before it answers "no match": a malformed chunk in
  the rest of the pattern is still an error.
\<close>

function Match_validate :: "string \<Rightarrow> string + bool" where
  "Match_validate pattern =
     (if pattern = [] then Inr False
      else
        (case scanChunk pattern of
           (star, chunk, rest) \<Rightarrow>
             (case matchChunk chunk [] of
                Inl err \<Rightarrow> Inl err
              | Inr ok \<Rightarrow> Match_validate rest)))"
  by pat_completeness auto
termination
  by (relation "measure length") (auto dest: scanChunk_rest [OF sym])

text \<open>
  \<open>Match(pattern, name)\<close>: an error for a malformed pattern, or whether the name
  matches.
\<close>

function Match :: "string \<Rightarrow> string \<Rightarrow> string + bool" where
  "Match pattern name =
     (if pattern = [] then Inr (name = [])
      else
        (case scanChunk pattern of
           (star, chunk, rest) \<Rightarrow>
             if star \<and> chunk = [] then Inr (Separator \<notin> set name)
             else
               (case matchChunk chunk name of
                  Inl err \<Rightarrow> Inl err
                | Inr ok \<Rightarrow>
                    (case (case ok of
                             Some t \<Rightarrow> if t = [] \<or> rest \<noteq> [] then Inr (Some t)
                                       else if star then Match_star chunk (rest = []) name
                                       else Inr None
                           | None \<Rightarrow> if star then Match_star chunk (rest = []) name
                                     else Inr None) of
                       Inl err \<Rightarrow> Inl err
                     | Inr None \<Rightarrow> Match_validate rest
                     | Inr (Some t) \<Rightarrow> Match rest t))))"
  by pat_completeness auto
termination
  by (relation "measure (\<lambda>(pattern, name). length pattern)")
     (auto dest: scanChunk_rest [OF sym])

declare Match.simps [simp del] Match_validate.simps [simp del]
  matchChunk_loop.simps [simp del] matchChunk_ranges.simps [simp del]

subsection \<open>Filter\<close>

text \<open>
  A pattern error is written to standard output as a warning, and the element is
  passed over.
\<close>

definition Filter_warning :: "string \<Rightarrow> string \<Rightarrow> string" where
  "Filter_warning err pattern =
     ''WARNING: '' @ err @ '', pattern was '' @ [CHR 0x27] @ pattern @ [CHR 0x27, CHR 0x0A]"

fun Filter_loop :: "string list \<Rightarrow> string \<Rightarrow> Set \<Rightarrow> store \<Rightarrow> panic + store" where
  "Filter_loop [] pattern res w = Inr w"
| "Filter_loop (elem # elems) pattern res w =
     (case Match pattern elem of
        Inl err \<Rightarrow>
          Filter_loop elems pattern res (w\<lparr>stdout := stdout w @ Filter_warning err pattern\<rparr>)
      | Inr matched \<Rightarrow>
          if \<not> matched then Filter_loop elems pattern res w
          else
            (case Add res elem w of
               Inl p \<Rightarrow> Inl p
             | Inr w' \<Rightarrow> Filter_loop elems pattern res w'))"

definition Filter :: "Set \<Rightarrow> string \<Rightarrow> store \<Rightarrow> panic + (Set \<times> store)" where
  "Filter s pattern w =
     (case NewSet [] w of
        Inl p \<Rightarrow> Inl p
      | Inr (res, w1) \<Rightarrow>
          (case Filter_loop (keys_of w1 s) pattern res w1 of
             Inl p \<Rightarrow> Inl p
           | Inr w2 \<Rightarrow> Inr (res, w2)))"

subsection \<open>What a write to one map object leaves alone\<close>

text \<open>
  \<open>only_changes r w w'\<close>: from \<open>w\<close> to \<open>w'\<close> no map object was made, and the keys of
  every object but the one at address \<open>r\<close> are the same.
\<close>

definition only_changes :: "nat \<Rightarrow> store \<Rightarrow> store \<Rightarrow> bool" where
  "only_changes r w w' \<longleftrightarrow>
     length (maps w') = length (maps w)
     \<and> (\<forall>a. a \<noteq> r \<longrightarrow> keys_of w' (SetRef a) = keys_of w (SetRef a))"

section \<open>Properties of subsetCheck\<close>

lemma subsetCheck_inner_iff: "subsetCheck_inner sub supers \<longleftrightarrow> sub \<in> set supers"
  by (induction supers) auto

text \<open>
  Claim C8. \<open>subsetCheck(subset, superset)\<close> is true exactly when every element of
  \<open>subset\<close> occurs in \<open>superset\<close>; the order of the elements and their repetitions play
  no part, and an empty \<open>subset\<close> gives true against every \<open>superset\<close>.
\<close>

theorem subsetCheck_iff_all_occur:
  "(subsetCheck subs supers \<longleftrightarrow> (\<forall>x \<in> set subs. x \<in> set supers))
   \<and> subsetCheck [] supers"
  by (induction subs) (simp_all add: subsetCheck_inner_iff)

theorem subsetCheck_iff_all_occur_witness:
  "subsetCheck [''sha256'', ''sha256''] [''sha512'', ''sha256'']
   \<and> \<not> subsetCheck [''sha256'', ''md5''] [''sha256'']
   \<and> subsetCheck [] [''sha256'']"
  using subsetCheck_iff_all_occur [of "[''sha256'', ''sha256'']" "[''sha512'', ''sha256'']"]
    subsetCheck_iff_all_occur [of "[''sha256'', ''md5'']" "[''sha256'']"]
  by simp

section \<open>Properties of VerifySignature\<close>

lemma VerifySignature_scan_no_match:
  "(\<forall>s \<in> set sigs. SigKeyId s \<noteq> KeyId key) \<Longrightarrow> VerifySignature_scan sigs key = Signature_zero"
  by (induction sigs) auto

lemma VerifySignature_scan_match:
  "\<exists>s \<in> set sigs. SigKeyId s = KeyId key \<Longrightarrow>
   VerifySignature_scan sigs key \<in> set sigs \<and> SigKeyId (VerifySignature_scan sigs key) = KeyId key"
  by (induction sigs) auto

lemma VerifySignature_NoSignatureError_iff:
  "(\<exists>msg. VerifySignature env mb key = Some (NoSignatureError msg))
   \<longleftrightarrow> VerifySignature_scan (Signatures mb) key = Signature_zero"
  by (auto simp: VerifySignature_def Let_def GetSignableRepresentation_def
           split: sum.splits option.splits)

lemma VerifySignature_NoSignatureError_if_none:
  "\<forall>s \<in> set (Signatures mb). SigKeyId s \<noteq> KeyId key \<Longrightarrow>
   \<exists>msg. VerifySignature env mb key = Some (NoSignatureError msg)"
  by (simp add: VerifySignature_NoSignatureError_iff VerifySignature_scan_no_match)

lemma VerifySignature_proceeds_nonempty_key:
  "KeyId key \<noteq> [] \<Longrightarrow> \<exists>s \<in> set (Signatures mb). SigKeyId s = KeyId key \<Longrightarrow>
   \<not> (\<exists>msg. VerifySignature env mb key = Some (NoSignatureError msg))"
proof -
  assume k: "KeyId key \<noteq> []" and m: "\<exists>s \<in> set (Signatures mb). SigKeyId s = KeyId key"
  from VerifySignature_scan_match [OF m]
  have "SigKeyId (VerifySignature_scan (Signatures mb) key) = KeyId key" by simp
  with k have "VerifySignature_scan (Signatures mb) key \<noteq> Signature_zero"
    by (auto simp: Signature_zero_def)
  then show ?thesis by (simp add: VerifySignature_NoSignatureError_iff)
qed

text \<open>
  Claim C1. At the Metablock whose only signature has the empty key id and the empty
  signature string, and a key whose id is empty, the signature found by the loop equals
  the zero value, and \<open>VerifySignature\<close> reports that no signature was found, although
  the list holds a signature with the key's id.
\<close>

theorem VerifySignature_empty_signature_not_found:
  "VerifySignature env
     \<lparr>Signed = payload, Signatures = [\<lparr>SigKeyId = [], Sig = []\<rparr>]\<rparr>
     \<lparr>KeyId = [], KeyIdHashAlgorithms = [''sha256'', ''sha512''], KeyType = ''ed25519'',
      KeyVal = \<lparr>Private = [], Public = ''393e671b200f964c49083d34a867f5d989ec1c69df7b66758fe471c8591b139c''\<rparr>,
      Scheme = ''ed25519''\<rparr>
   = Some (NoSignatureError (''No signature found for key '' @ [CHR 0x27, CHR 0x27]))"
  by (simp add: VerifySignature_def Signature_zero_def)

section \<open>Properties of Sign\<close>

text \<open>
  Claim C3 (as stated it fails). Signing with an rsa key: the error is the fixed text of
  the source, in which the key id does not occur.
\<close>

theorem Sign_unsupported_counterexample:
  "Sign \<lparr>encodeCanonical = (\<lambda>payload. Inr ''{}''),
         generateEd25519Signature = (\<lambda>d k. Inr \<lparr>SigKeyId = KeyId k, Sig = ''00''\<rparr>),
         VerifySignature_func = (\<lambda>k s d. None)\<rparr>
        \<lparr>Signed = SignedNil, Signatures = []\<rparr>
        \<lparr>KeyId = ''2f89b927'', KeyIdHashAlgorithms = [''sha256''], KeyType = ''rsa'',
         KeyVal = \<lparr>Private = [], Public = ''pem''\<rparr>, Scheme = ''rsassa-pss-sha256''\<rparr>
   = (Some (UnsupportedSchemeError ''This key type or signature scheme is not supported yet!''),
      \<lparr>Signed = SignedNil, Signatures = []\<rparr>)
   \<and> \<not> names_key_id ''This key type or signature scheme is not supported yet!'' ''2f89b927''"
proof -
  have "\<not> sublist ''2f89b927'' ''This key type or signature scheme is not supported yet!''"
    by code_simp
  then show ?thesis
    by (simp add: Sign_def GetSignableRepresentation_def names_key_id_def)
qed

text \<open>
  Claim C3 (amended). When the Signed value canonicalizes and the pair (KeyType, Scheme)
  of the key is not ("ed25519", "ed25519"), \<open>Sign\<close> fails with the
  UnsupportedSchemeError of the fixed text "This key type or signature scheme is not
  supported yet!" and leaves the Metablock as it was; when the Signed value does not
  canonicalize, \<open>Sign\<close> fails with the canonicalizer's error, whatever the key.
\<close>

theorem Sign_unsupported_scheme:
  "(encodeCanonical env (Signed mb) = Inr dataCanonical \<longrightarrow>
      \<not> (KeyType key = ''ed25519'' \<and> Scheme key = ''ed25519'') \<longrightarrow>
      Sign env mb key =
        (Some (UnsupportedSchemeError ''This key type or signature scheme is not supported yet!''), mb))
   \<and> (encodeCanonical env (Signed mb) = Inl msg \<longrightarrow>
      Sign env mb key = (Some (CanonicalizationError msg), mb))"
  by (simp add: Sign_def GetSignableRepresentation_def)

theorem Sign_unsupported_scheme_witness:
  "Sign \<lparr>encodeCanonical = (\<lambda>payload. Inr ''{}''),
         generateEd25519Signature = (\<lambda>d k. Inr \<lparr>SigKeyId = KeyId k, Sig = ''00''\<rparr>),
         VerifySignature_func = (\<lambda>k s d. None)\<rparr>
        \<lparr>Signed = SignedNil, Signatures = [\<lparr>SigKeyId = ''776a00e2'', Sig = ''ab''\<rparr>]\<rparr>
        \<lparr>KeyId = ''2f89b927'', KeyIdHashAlgorithms = [''sha256''], KeyType = ''ed25519'',
         KeyVal = \<lparr>Private = [], Public = ''pem''\<rparr>, Scheme = ''eddsa''\<rparr>
   = (Some (UnsupportedSchemeError ''This key type or signature scheme is not supported yet!''),
      \<lparr>Signed = SignedNil, Signatures = [\<lparr>SigKeyId = ''776a00e2'', Sig = ''ab''\<rparr>]\<rparr>)
   \<and> Sign \<lparr>encodeCanonical = (\<lambda>payload. Inl ''cannot canonicalize''),
         generateEd25519Signature = (\<lambda>d k. Inr \<lparr>SigKeyId = KeyId k, Sig = ''00''\<rparr>),
         VerifySignature_func = (\<lambda>k s d. None)\<rparr>
        \<lparr>Signed = SignedNil, Signatures = []\<rparr>
        \<lparr>KeyId = ''2f89b927'', KeyIdHashAlgorithms = [''sha256''], KeyType = ''rsa'',
         KeyVal = \<lparr>Private = [], Public = ''pem''\<rparr>, Scheme = ''rsassa-pss-sha256''\<rparr>
   = (Some (CanonicalizationError ''cannot canonicalize''), \<lparr>Signed = SignedNil, Signatures = []\<rparr>)"
  using Sign_unsupported_scheme
    [of "\<lparr>encodeCanonical = (\<lambda>payload. Inr ''{}''),
         generateEd25519Signature = (\<lambda>d k. Inr \<lparr>SigKeyId = KeyId k, Sig = ''00''\<rparr>),
         VerifySignature_func = (\<lambda>k s d. None)\<rparr>"
        "\<lparr>Signed = SignedNil, Signatures = [\<lparr>SigKeyId = ''776a00e2'', Sig = ''ab''\<rparr>]\<rparr>"
        "''{}''"
        "\<lparr>KeyId = ''2f89b927'', KeyIdHashAlgorithms = [''sha256''], KeyType = ''ed25519'',
         KeyVal = \<lparr>Private = [], Public = ''pem''\<rparr>, Scheme = ''eddsa''\<rparr>"]
    Sign_unsupported_scheme
    [of "\<lparr>encodeCanonical = (\<lambda>payload. Inl ''cannot canonicalize''),
         generateEd25519Signature = (\<lambda>d k. Inr \<lparr>SigKeyId = KeyId k, Sig = ''00''\<rparr>),
         VerifySignature_func = (\<lambda>k s d. None)\<rparr>"
        "\<lparr>Signed = SignedNil, Signatures = []\<rparr>" _
        "\<lparr>KeyId = ''2f89b927'', KeyIdHashAlgorithms = [''sha256''], KeyType = ''rsa'',
         KeyVal = \<lparr>Private = [], Public = ''pem''\<rparr>, Scheme = ''rsassa-pss-sha256''\<rparr>"
        "''cannot canonicalize''"]
  by simp

text \<open>
  Claim C9. A call of \<open>Sign\<close> that returns an error leaves the Metablock as it was:
  the same Signed value and the same list of signatures.
\<close>

theorem Sign_error_unchanged:
  "Sign env mb key = (Some err, mb') \<Longrightarrow> mb' = mb"
  by (auto simp: Sign_def split: sum.splits if_splits)

theorem Sign_error_unchanged_witness:
  "Sign \<lparr>encodeCanonical = (\<lambda>payload. Inr ''{}''),
         generateEd25519Signature = (\<lambda>d k. Inl ''invalid key''),
         VerifySignature_func = (\<lambda>k s d. None)\<rparr>
        \<lparr>Signed = SignedNil, Signatures = [\<lparr>SigKeyId = ''776a00e2'', Sig = ''ab''\<rparr>]\<rparr>
        \<lparr>KeyId = ''2f89b927'', KeyIdHashAlgorithms = [''sha256''], KeyType = ''ed25519'',
         KeyVal = \<lparr>Private = [], Public = ''pem''\<rparr>, Scheme = ''ed25519''\<rparr>
   = (Some (SigningError ''invalid key''),
      \<lparr>Signed = SignedNil, Signatures = [\<lparr>SigKeyId = ''776a00e2'', Sig = ''ab''\<rparr>]\<rparr>)"
proof -
  let ?env = "\<lparr>encodeCanonical = (\<lambda>payload. Inr ''{}''),
         generateEd25519Signature = (\<lambda>d k. Inl ''invalid key''),
         VerifySignature_func = (\<lambda>k s d. None)\<rparr>"
  let ?mb = "\<lparr>Signed = SignedNil, Signatures = [\<lparr>SigKeyId = ''776a00e2'', Sig = ''ab''\<rparr>]\<rparr>"
  let ?key = "\<lparr>KeyId = ''2f89b927'', KeyIdHashAlgorithms = [''sha256''], KeyType = ''ed25519'',
         KeyVal = \<lparr>Private = [], Public = ''pem''\<rparr>, Scheme = ''ed25519''\<rparr>"
  have fst_r: "fst (Sign ?env ?mb ?key) = Some (SigningError ''invalid key'')"
    by (simp add: Sign_def GetSignableRepresentation_def)
  then have "Sign ?env ?mb ?key = (Some (SigningError ''invalid key''), snd (Sign ?env ?mb ?key))"
    by (metis prod.collapse)
  from Sign_error_unchanged [OF this] fst_r show ?thesis
    by (metis prod.collapse)
qed

section \<open>Properties of Load\<close>

lemma lookup_last_None_iff: "lookup_last members k = None \<longleftrightarrow> k \<notin> fst ` set members"
  by (induction members) (auto split: option.splits)

lemma unmarshalRawMb_object: "unmarshalRawMb (JObject members) = Inr (rawMb_of members)"
  by (simp add: unmarshalRawMb_def)

lemma rawMb_of_None_iff:
  "rawMb_of members k = None
   \<longleftrightarrow> k \<notin> fst ` set members \<or> lookup_last members k = Some JNull"
  by (auto simp: rawMb_of_def lookup_last_None_iff [symmetric] split: option.splits json.splits)

lemma rawMb_of_present:
  "lookup_last members k = Some raw \<Longrightarrow> raw \<noteq> JNull \<Longrightarrow> rawMb_of members k = Some raw"
  by (cases raw) (simp_all add: rawMb_of_def)

text \<open>
  Claim C5. When the top-level object of the document has no member "signed" or no
  member "signatures", or the value of either is \<open>null\<close>, \<open>Load\<close> fails with the
  FormatError and leaves the Metablock as it was: its Signed field is not filled.
\<close>

theorem Load_requires_both_parts:
  assumes "readFile env path = Inr jsonBytes"
    and "parseJSON env jsonBytes = Inr (JObject members)"
    and "''signed'' \<notin> fst ` set members \<or> lookup_last members ''signed'' = Some JNull
         \<or> ''signatures'' \<notin> fst ` set members
         \<or> lookup_last members ''signatures'' = Some JNull"
  shows "Load env path mb =
           (Some (FormatError ''In-toto metadata requires 'signed' and 'signatures' parts''),
            mb)"
proof -
  from assms(3) have "rawMb_of members ''signed'' = None \<or> rawMb_of members ''signatures'' = None"
    by (simp only: rawMb_of_None_iff) blast
  then show ?thesis
    using assms(1,2)
    by (auto simp: Load_def unmarshalRawMb_object split: option.splits)
qed

theorem Load_requires_both_parts_witness:
  "Load (sample_decoders (JObject [(''signatures'', JArray [])])) ''root.layout''
        \<lparr>Signed = SignedNil, Signatures = []\<rparr>
     = (Some (FormatError ''In-toto metadata requires 'signed' and 'signatures' parts''),
        \<lparr>Signed = SignedNil, Signatures = []\<rparr>)
   \<and> Load (sample_decoders (JObject [(''signed'', JNull), (''signatures'', JArray [])]))
        ''root.layout'' \<lparr>Signed = SignedNil, Signatures = []\<rparr>
     = (Some (FormatError ''In-toto metadata requires 'signed' and 'signatures' parts''),
        \<lparr>Signed = SignedNil, Signatures = []\<rparr>)
   \<and> Load (sample_decoders (JObject [(''signed'', JObject [(''_type'', JString ''link'')])]))
        ''root.layout'' \<lparr>Signed = SignedNil, Signatures = []\<rparr>
     = (Some (FormatError ''In-toto metadata requires 'signed' and 'signatures' parts''),
        \<lparr>Signed = SignedNil, Signatures = []\<rparr>)"
  using
    Load_requires_both_parts
      [of "sample_decoders (JObject [(''signatures'', JArray [])])" "''root.layout''"
          "''bytes of the file''" "[(''signatures'', JArray [])]"
          "\<lparr>Signed = SignedNil, Signatures = []\<rparr>"]
    Load_requires_both_parts
      [of "sample_decoders (JObject [(''signed'', JNull), (''signatures'', JArray [])])"
          "''root.layout''" "''bytes of the file''"
          "[(''signed'', JNull), (''signatures'', JArray [])]"
          "\<lparr>Signed = SignedNil, Signatures = []\<rparr>"]
    Load_requires_both_parts
      [of "sample_decoders (JObject [(''signed'', JObject [(''_type'', JString ''link'')])])"
          "''root.layout''" "''bytes of the file''"
          "[(''signed'', JObject [(''_type'', JString ''link'')])]"
          "\<lparr>Signed = SignedNil, Signatures = []\<rparr>"]
  by (simp add: sample_decoders_def)

text \<open>
  Claim C2. For a document that is an object whose member "signed" is an object and
  whose member "signatures" decodes: when the member "_type" of "signed" is the string
  "link" and "signed" decodes as a Link, \<open>Load\<close> succeeds with that Link in Signed;
  when it is the string "layout" and "signed" decodes as a Layout, \<open>Load\<close> succeeds
  with that Layout in Signed; when it is any other value, or "signed" has no member
  "_type", \<open>Load\<close> fails with the UnknownTypeError.
\<close>

theorem Load_dispatch_on_type:
  assumes "readFile env path = Inr jsonBytes"
    and "parseJSON env jsonBytes = Inr (JObject members)"
    and "lookup_last members ''signed'' = Some (JObject members')"
    and "lookup_last members ''signatures'' = Some signaturesRaw"
    and "signaturesRaw \<noteq> JNull"
    and "unmarshalSignatures env signaturesRaw (Signatures mb) = (None, sigs)"
  shows "(lookup_last members' ''_type'' = Some (JString ''link'') \<longrightarrow>
            unmarshalLink env (JObject members') = Inr link \<longrightarrow>
            Load env path mb = (None, \<lparr>Signed = SignedLink link, Signatures = sigs\<rparr>))
       \<and> (lookup_last members' ''_type'' = Some (JString ''layout'') \<longrightarrow>
            unmarshalLayout env (JObject members') = Inr layout \<longrightarrow>
            Load env path mb = (None, \<lparr>Signed = SignedLayout layout, Signatures = sigs\<rparr>))
       \<and> (lookup_last members' ''_type'' \<noteq> Some (JString ''link'') \<longrightarrow>
            lookup_last members' ''_type'' \<noteq> Some (JString ''layout'') \<longrightarrow>
            Load env path mb =
              (Some (UnknownTypeError
                       (''The '_type' field of the 'signed' part of in-toto''
                        @ '' metadata must be one of 'link' or 'layout'' @ [CHR 0x27])),
               \<lparr>Signed = Signed mb, Signatures = sigs\<rparr>))"
proof -
  have s: "rawMb_of members ''signed'' = Some (JObject members')"
    using rawMb_of_present [OF assms(3)] by simp
  have g: "rawMb_of members ''signatures'' = Some signaturesRaw"
    using rawMb_of_present [OF assms(4) assms(5)] by simp
  have u: "unmarshalSigned (JObject members') = Inr (lookup_last members')"
    by (simp add: unmarshalSigned_def)
  have pre: "Load env path mb =
     (let mb1 = mb\<lparr>Signatures := sigs\<rparr> in
        if lookup_last members' ''_type'' = Some (JString ''link'')
        then (case unmarshalLink env (JObject members') of
               Inl msg \<Rightarrow> (Some (JSONError msg), mb1)
             | Inr link \<Rightarrow> (None, mb1\<lparr>Signed := SignedLink link\<rparr>))
        else if lookup_last members' ''_type'' = Some (JString ''layout'')
        then (case unmarshalLayout env (JObject members') of
               Inl msg \<Rightarrow> (Some (JSONError msg), mb1)
             | Inr layout \<Rightarrow> (None, mb1\<lparr>Signed := SignedLayout layout\<rparr>))
        else (Some (UnknownTypeError
                     (''The '_type' field of the 'signed' part of in-toto''
                      @ '' metadata must be one of 'link' or 'layout'' @ [CHR 0x27])),
              mb1))"
    unfolding Load_def
    by (simp only: assms(1) assms(2) assms(6) unmarshalRawMb_object s g u
          sum.case option.case prod.case)
  show ?thesis
    unfolding pre by (cases mb) (simp add: Let_def)
qed

theorem Load_dispatch_on_type_witness:
  "Load (sample_decoders
           (sample_envelope [(''_type'', JString ''link''), (''name'', JString ''package'')]))
        ''package.2f89b927.link'' \<lparr>Signed = SignedNil, Signatures = []\<rparr>
     = (None,
        \<lparr>Signed = SignedLink
           \<lparr>LinkType = ''link'', LinkName = ''package'',
            Materials = Map.empty, Products = Map.empty, ByProducts = Map.empty,
            Command = [], Environment = Map.empty\<rparr>,
         Signatures = []\<rparr>)
   \<and> Load (sample_decoders
           (sample_envelope [(''_type'', JString ''layout''), (''steps'', JArray []),
              (''inspect'', JArray []), (''keys'', JObject []),
              (''expires'', JString []), (''readme'', JString [])]))
        ''root.layout'' \<lparr>Signed = SignedNil, Signatures = []\<rparr>
     = (None,
        \<lparr>Signed = SignedLayout
           \<lparr>LayoutType = ''layout'', Steps = [], Inspect = [], Keys = Map.empty,
            Expires = [], Readme = []\<rparr>,
         Signatures = []\<rparr>)
   \<and> Load (sample_decoders (sample_envelope [(''_type'', JString ''bogus'')]))
        ''root.layout'' \<lparr>Signed = SignedNil, Signatures = []\<rparr>
     = (Some (UnknownTypeError
               (''The '_type' field of the 'signed' part of in-toto''
                @ '' metadata must be one of 'link' or 'layout'' @ [CHR 0x27])),
        \<lparr>Signed = SignedNil, Signatures = []\<rparr>)
   \<and> Load (sample_decoders (sample_envelope [(''name'', JString ''package'')]))
        ''root.layout'' \<lparr>Signed = SignedNil, Signatures = []\<rparr>
     = (Some (UnknownTypeError
               (''The '_type' field of the 'signed' part of in-toto''
                @ '' metadata must be one of 'link' or 'layout'' @ [CHR 0x27])),
        \<lparr>Signed = SignedNil, Signatures = []\<rparr>)"
proof -
  let ?mb = "\<lparr>Signed = SignedNil, Signatures = []\<rparr>"
  let ?f1 = "[(''_type'', JString ''link''), (''name'', JString ''package'')]"
  let ?f2 = "[(''_type'', JString ''layout''), (''steps'', JArray []),
              (''inspect'', JArray []), (''keys'', JObject []),
              (''expires'', JString []), (''readme'', JString [])]"
  let ?f3 = "[(''_type'', JString ''bogus'')]"
  let ?f4 = "[(''name'', JString ''package'')]"
  have d: "(lookup_last fs ''_type'' = Some (JString ''link'') \<longrightarrow>
            unmarshalLink (sample_decoders (sample_envelope fs)) (JObject fs) = Inr link \<longrightarrow>
            Load (sample_decoders (sample_envelope fs)) path ?mb
              = (None, \<lparr>Signed = SignedLink link, Signatures = []\<rparr>))
       \<and> (lookup_last fs ''_type'' = Some (JString ''layout'') \<longrightarrow>
            unmarshalLayout (sample_decoders (sample_envelope fs)) (JObject fs) = Inr layout \<longrightarrow>
            Load (sample_decoders (sample_envelope fs)) path ?mb
              = (None, \<lparr>Signed = SignedLayout layout, Signatures = []\<rparr>))
       \<and> (lookup_last fs ''_type'' \<noteq> Some (JString ''link'') \<longrightarrow>
            lookup_last fs ''_type'' \<noteq> Some (JString ''layout'') \<longrightarrow>
            Load (sample_decoders (sample_envelope fs)) path ?mb =
              (Some (UnknownTypeError
                       (''The '_type' field of the 'signed' part of in-toto''
                        @ '' metadata must be one of 'link' or 'layout'' @ [CHR 0x27])),
               ?mb))"
    for fs path link layout
    using Load_dispatch_on_type
      [of "sample_decoders (sample_envelope fs)" path "''bytes of the file''"
          "[(''signed'', JObject fs), (''signatures'', JArray [])]" fs "JArray []" ?mb "[]"
          link layout]
    by (simp add: sample_decoders_def sample_envelope_def)
  have c1: "Load (sample_decoders (sample_envelope ?f1)) ''package.2f89b927.link'' ?mb
     = (None,
        \<lparr>Signed = SignedLink
           \<lparr>LinkType = ''link'', LinkName = ''package'',
            Materials = Map.empty, Products = Map.empty, ByProducts = Map.empty,
            Command = [], Environment = Map.empty\<rparr>,
         Signatures = []\<rparr>)"
    using d [of ?f1 _ "''package.2f89b927.link''", THEN conjunct1]
    by (simp add: sample_decoders_def sample_string_def)
  have c2: "Load (sample_decoders (sample_envelope ?f2)) ''root.layout'' ?mb
     = (None,
        \<lparr>Signed = SignedLayout
           \<lparr>LayoutType = ''layout'', Steps = [], Inspect = [], Keys = Map.empty,
            Expires = [], Readme = []\<rparr>,
         Signatures = []\<rparr>)"
    using d [of ?f2 _ "''root.layout''", THEN conjunct2, THEN conjunct1]
    by (simp add: sample_decoders_def sample_string_def)
  have c3: "Load (sample_decoders (sample_envelope ?f3)) ''root.layout'' ?mb
     = (Some (UnknownTypeError
               (''The '_type' field of the 'signed' part of in-toto''
                @ '' metadata must be one of 'link' or 'layout'' @ [CHR 0x27])), ?mb)"
    using d [of ?f3 _ "''root.layout''", THEN conjunct2, THEN conjunct2]
    by simp
  have c4: "Load (sample_decoders (sample_envelope ?f4)) ''root.layout'' ?mb
     = (Some (UnknownTypeError
               (''The '_type' field of the 'signed' part of in-toto''
                @ '' metadata must be one of 'link' or 'layout'' @ [CHR 0x27])), ?mb)"
    using d [of ?f4 _ "''root.layout''", THEN conjunct2, THEN conjunct2]
    by simp
  from c1 c2 c3 c4 show ?thesis by simp
qed

section \<open>Properties of Sign: appending\<close>

text \<open>
  Claim C6. With the ed25519 backend as the spec describes it, a call of \<open>Sign\<close> that
  succeeds has a key of type and scheme "ed25519" and appends one Signature, tagged
  with the key's id, at the end of Signatures; the Signed field and the signatures that
  were there stay as they were. Signing once more with the same key succeeds and
  appends the same entry a second time.
\<close>

theorem Sign_appends_one_signature:
  assumes "generateEd25519Signature env = generateEd25519Signature_spec sign"
    and "Sign env mb key = (None, mb')"
  shows "\<exists>sigbytes.
           mb' = \<lparr>Signed = Signed mb,
                  Signatures = Signatures mb @ [\<lparr>SigKeyId = KeyId key, Sig = sigbytes\<rparr>]\<rparr>
         \<and> KeyType key = ''ed25519'' \<and> Scheme key = ''ed25519''
         \<and> Sign env mb' key =
             (None, \<lparr>Signed = Signed mb,
                     Signatures = Signatures mb @ [\<lparr>SigKeyId = KeyId key, Sig = sigbytes\<rparr>,
                                                  \<lparr>SigKeyId = KeyId key, Sig = sigbytes\<rparr>]\<rparr>)"
  using assms
  by (cases mb)
     (auto simp: Sign_def GetSignableRepresentation_def generateEd25519Signature_spec_def
           split: sum.splits if_splits)

theorem Sign_appends_one_signature_witness:
  "Sign \<lparr>encodeCanonical = (\<lambda>payload. Inr ''{}''),
         generateEd25519Signature = generateEd25519Signature_spec (\<lambda>d k. Inr (Public (KeyVal k) @ d)),
         VerifySignature_func = (\<lambda>k s d. None)\<rparr>
        \<lparr>Signed = SignedNil, Signatures = [\<lparr>SigKeyId = ''776a00e2'', Sig = ''ab''\<rparr>]\<rparr>
        \<lparr>KeyId = ''2f89b927'', KeyIdHashAlgorithms = [''sha256''], KeyType = ''ed25519'',
         KeyVal = \<lparr>Private = ''c0'', Public = ''39''\<rparr>, Scheme = ''ed25519''\<rparr>
   = (None, \<lparr>Signed = SignedNil,
             Signatures = [\<lparr>SigKeyId = ''776a00e2'', Sig = ''ab''\<rparr>,
                           \<lparr>SigKeyId = ''2f89b927'', Sig = ''39{}''\<rparr>]\<rparr>)"
proof -
  let ?env = "\<lparr>encodeCanonical = (\<lambda>payload. Inr ''{}''),
         generateEd25519Signature = generateEd25519Signature_spec (\<lambda>d k. Inr (Public (KeyVal k) @ d)),
         VerifySignature_func = (\<lambda>k s d. None)\<rparr>"
  let ?mb = "\<lparr>Signed = SignedNil, Signatures = [\<lparr>SigKeyId = ''776a00e2'', Sig = ''ab''\<rparr>]\<rparr>"
  let ?key = "\<lparr>KeyId = ''2f89b927'', KeyIdHashAlgorithms = [''sha256''], KeyType = ''ed25519'',
         KeyVal = \<lparr>Private = ''c0'', Public = ''39''\<rparr>, Scheme = ''ed25519''\<rparr>"
  have g: "generateEd25519Signature ?env
             = generateEd25519Signature_spec (\<lambda>d k. Inr (Public (KeyVal k) @ d))"
    by simp
  have f: "fst (Sign ?env ?mb ?key) = None"
    by (simp add: Sign_def GetSignableRepresentation_def generateEd25519Signature_spec_def)
  then have r: "Sign ?env ?mb ?key = (None, snd (Sign ?env ?mb ?key))"
    by (metis prod.collapse)
  from Sign_appends_one_signature [OF g r]
  obtain sigbytes where
    m: "snd (Sign ?env ?mb ?key) = \<lparr>Signed = Signed ?mb,
          Signatures = Signatures ?mb @ [\<lparr>SigKeyId = KeyId ?key, Sig = sigbytes\<rparr>]\<rparr>"
    by blast
  have "Sig (last (Signatures (snd (Sign ?env ?mb ?key)))) = ''39{}''"
    by (simp add: Sign_def GetSignableRepresentation_def generateEd25519Signature_spec_def)
  with m have "sigbytes = ''39{}''" by simp
  with m r show ?thesis by simp
qed

section \<open>Properties of the set operations\<close>

lemma only_changes_refl: "only_changes r w w"
  by (simp add: only_changes_def)

lemma only_changes_trans:
  "only_changes r w w1 \<Longrightarrow> only_changes r w1 w2 \<Longrightarrow> only_changes r w w2"
  by (simp add: only_changes_def)

lemma only_changes_stdout: "only_changes r w (w\<lparr>stdout := out\<rparr>)"
  by (simp add: only_changes_def keys_of_def)

lemma keys_of_stdout: "keys_of (w\<lparr>stdout := out\<rparr>) s = keys_of w s"
  by (cases s) (simp_all add: keys_of_def)

lemma only_changes_Has:
  "only_changes r w w' \<Longrightarrow> s \<noteq> SetRef r \<Longrightarrow> Has w' s x = Has w s x"
  by (cases s) (auto simp: only_changes_def Has_def keys_of_def)

lemma Add_SetRef:
  assumes "r < length (maps w)"
  shows "\<exists>w'. Add (SetRef r) elem w = Inr w' \<and> only_changes r w w' \<and> stdout w' = stdout w
           \<and> set (keys_of w' (SetRef r)) = insert elem (set (keys_of w (SetRef r)))"
  using assms by (auto simp: Add_def only_changes_def keys_of_def)

lemma NewSet_empty:
  "NewSet [] w = Inr (SetRef (length (maps w)), w\<lparr>maps := maps w @ [[]]\<rparr>)"
  by (simp add: NewSet_def make_map_def)

subsection \<open>The three loops\<close>

lemma Has_cong_store:
  "only_changes r w w1 \<Longrightarrow> s2 \<noteq> SetRef r \<Longrightarrow> Has w1 s2 = Has w s2"
  by (rule ext) (rule only_changes_Has)

lemma Intersection_loop_result:
  assumes "r < length (maps w)" and "s2 \<noteq> SetRef r"
  shows "\<exists>w'. Intersection_loop xs s2 (SetRef r) w = Inr w' \<and> only_changes r w w'
           \<and> stdout w' = stdout w
           \<and> set (keys_of w' (SetRef r))
               = set (keys_of w (SetRef r)) \<union> set (filter (Has w s2) xs)"
  using assms
proof (induction xs arbitrary: w)
  case Nil
  then show ?case by (simp add: only_changes_refl)
next
  case (Cons x xs)
  show ?case
  proof (cases "Has w s2 x")
    case False
    then have step: "Intersection_loop (x # xs) s2 (SetRef r) w
                       = Intersection_loop xs s2 (SetRef r) w"
      and f: "filter (Has w s2) (x # xs) = filter (Has w s2) xs"
      by simp_all
    show ?thesis unfolding step f by (rule Cons.IH [OF Cons.prems])
  next
    case True
    from Add_SetRef [OF Cons.prems(1), of x] obtain w1 where
      a: "Add (SetRef r) x w = Inr w1" "only_changes r w w1" "stdout w1 = stdout w"
         "set (keys_of w1 (SetRef r)) = insert x (set (keys_of w (SetRef r)))"
      by blast
    from a(2) Cons.prems(1) have r1: "r < length (maps w1)" by (simp add: only_changes_def)
    from Cons.IH [OF r1 Cons.prems(2)] obtain w' where
      l: "Intersection_loop xs s2 (SetRef r) w1 = Inr w'" "only_changes r w1 w'"
         "stdout w' = stdout w1"
         "set (keys_of w' (SetRef r))
            = set (keys_of w1 (SetRef r)) \<union> set (filter (Has w1 s2) xs)"
      by blast
    from True a(1) have step: "Intersection_loop (x # xs) s2 (SetRef r) w
                       = Intersection_loop xs s2 (SetRef r) w1"
      by simp
    have oc: "only_changes r w w'" by (rule only_changes_trans [OF a(2) l(2)])
    have so: "stdout w' = stdout w" using l(3) a(3) by simp
    have ks: "set (keys_of w' (SetRef r))
                = set (keys_of w (SetRef r)) \<union> set (filter (Has w s2) (x # xs))"
      using l(4) a(4) True Has_cong_store [OF a(2) Cons.prems(2)] by simp
    show ?thesis unfolding step using l(1) oc so ks by blast
  qed
qed

lemma Difference_loop_result:
  assumes "r < length (maps w)" and "s2 \<noteq> SetRef r"
  shows "\<exists>w'. Difference_loop xs s2 (SetRef r) w = Inr w' \<and> only_changes r w w'
           \<and> stdout w' = stdout w
           \<and> set (keys_of w' (SetRef r))
               = set (keys_of w (SetRef r)) \<union> set (filter (\<lambda>x. \<not> Has w s2 x) xs)"
  using assms
proof (induction xs arbitrary: w)
  case Nil
  then show ?case by (simp add: only_changes_refl)
next
  case (Cons x xs)
  show ?case
  proof (cases "Has w s2 x")
    case True
    then have step: "Difference_loop (x # xs) s2 (SetRef r) w
                       = Difference_loop xs s2 (SetRef r) w"
      and f: "filter (\<lambda>x. \<not> Has w s2 x) (x # xs) = filter (\<lambda>x. \<not> Has w s2 x) xs"
      by simp_all
    show ?thesis unfolding step f by (rule Cons.IH [OF Cons.prems])
  next
    case False
    from Add_SetRef [OF Cons.prems(1), of x] obtain w1 where
      a: "Add (SetRef r) x w = Inr w1" "only_changes r w w1" "stdout w1 = stdout w"
         "set (keys_of w1 (SetRef r)) = insert x (set (keys_of w (SetRef r)))"
      by blast
    from a(2) Cons.prems(1) have r1: "r < length (maps w1)" by (simp add: only_changes_def)
    from Cons.IH [OF r1 Cons.prems(2)] obtain w' where
      l: "Difference_loop xs s2 (SetRef r) w1 = Inr w'" "only_changes r w1 w'"
         "stdout w' = stdout w1"
         "set (keys_of w' (SetRef r))
            = set (keys_of w1 (SetRef r)) \<union> set (filter (\<lambda>x. \<not> Has w1 s2 x) xs)"
      by blast
    from False a(1) have step: "Difference_loop (x # xs) s2 (SetRef r) w
                       = Difference_loop xs s2 (SetRef r) w1"
      by simp
    have oc: "only_changes r w w'" by (rule only_changes_trans [OF a(2) l(2)])
    have so: "stdout w' = stdout w" using l(3) a(3) by simp
    have ks: "set (keys_of w' (SetRef r))
                = set (keys_of w (SetRef r)) \<union> set (filter (\<lambda>x. \<not> Has w s2 x) (x # xs))"
      using l(4) a(4) False Has_cong_store [OF a(2) Cons.prems(2)] by simp
    show ?thesis unfolding step using l(1) oc so ks by blast
  qed
qed

lemma Filter_loop_result:
  assumes "r < length (maps w)"
  shows "\<exists>w'. Filter_loop xs pattern (SetRef r) w = Inr w' \<and> only_changes r w w'
           \<and> set (keys_of w' (SetRef r))
               = set (keys_of w (SetRef r))
                 \<union> set (filter (\<lambda>x. Match pattern x = Inr True) xs)"
  using assms
proof (induction xs arbitrary: w)
  case Nil
  then show ?case by (simp add: only_changes_refl)
next
  case (Cons x xs)
  show ?case
  proof (cases "Match pattern x")
    case (Inl err)
    let ?w1 = "w\<lparr>stdout := stdout w @ Filter_warning err pattern\<rparr>"
    from Cons.prems have "r < length (maps ?w1)" by simp
    from Cons.IH [OF this] obtain w' where
      l: "Filter_loop xs pattern (SetRef r) ?w1 = Inr w'" "only_changes r ?w1 w'"
         "set (keys_of w' (SetRef r))
            = set (keys_of ?w1 (SetRef r))
              \<union> set (filter (\<lambda>x. Match pattern x = Inr True) xs)"
      by blast
    from Inl have step: "Filter_loop (x # xs) pattern (SetRef r) w
                           = Filter_loop xs pattern (SetRef r) ?w1"
      and f: "filter (\<lambda>x. Match pattern x = Inr True) (x # xs)
                = filter (\<lambda>x. Match pattern x = Inr True) xs"
      by simp_all
    have oc: "only_changes r w w'" by (rule only_changes_trans [OF only_changes_stdout l(2)])
    have ks: "set (keys_of w' (SetRef r))
            = set (keys_of w (SetRef r))
              \<union> set (filter (\<lambda>x. Match pattern x = Inr True) xs)"
      using l(3) by (simp only: keys_of_stdout)
    show ?thesis unfolding step f using l(1) oc ks by blast
  next
    case (Inr matched)
    show ?thesis
    proof (cases matched)
      case False
      with Inr have step: "Filter_loop (x # xs) pattern (SetRef r) w
                           = Filter_loop xs pattern (SetRef r) w"
        and f: "filter (\<lambda>x. Match pattern x = Inr True) (x # xs)
                = filter (\<lambda>x. Match pattern x = Inr True) xs"
        by simp_all
      show ?thesis unfolding step f by (rule Cons.IH [OF Cons.prems])
    next
      case True
      from Add_SetRef [OF Cons.prems(1), of x] obtain w1 where
        a: "Add (SetRef r) x w = Inr w1" "only_changes r w w1"
           "set (keys_of w1 (SetRef r)) = insert x (set (keys_of w (SetRef r)))"
        by blast
      from a(2) Cons.prems(1) have r1: "r < length (maps w1)" by (simp add: only_changes_def)
      from Cons.IH [OF r1] obtain w' where
        l: "Filter_loop xs pattern (SetRef r) w1 = Inr w'" "only_changes r w1 w'"
           "set (keys_of w' (SetRef r))
              = set (keys_of w1 (SetRef r))
                \<union> set (filter (\<lambda>x. Match pattern x = Inr True) xs)"
        by blast
      from True Inr a(1) have step: "Filter_loop (x # xs) pattern (SetRef r) w
                           = Filter_loop xs pattern (SetRef r) w1"
        by simp
      have oc: "only_changes r w w'" by (rule only_changes_trans [OF a(2) l(2)])
      have ks: "set (keys_of w' (SetRef r))
              = set (keys_of w (SetRef r))
                \<union> set (filter (\<lambda>x. Match pattern x = Inr True) (x # xs))"
        using l(3) a(3) True Inr by simp
      show ?thesis unfolding step using l(1) oc ks by blast
    qed
  qed
qed

subsection \<open>The operations\<close>

lemma keys_of_new_map:
  "keys_of (w\<lparr>maps := maps w @ [[]]\<rparr>) (SetRef (length (maps w))) = []"
  by (simp add: keys_of_def)

lemma keys_of_old_map:
  "live w s \<Longrightarrow> keys_of (w\<lparr>maps := maps w @ [[]]\<rparr>) s = keys_of w s"
  by (cases s) (simp_all add: keys_of_def live_def nth_append)

lemma live_not_new: "live w s \<Longrightarrow> s \<noteq> SetRef (length (maps w))"
  by (auto simp: live_def)

lemma Has_old_map:
  "live w s \<Longrightarrow> Has (w\<lparr>maps := maps w @ [[]]\<rparr>) s = Has w s"
  by (rule ext) (simp add: Has_def keys_of_old_map)

lemma only_changes_new_keys:
  assumes "only_changes (length (maps w)) (w\<lparr>maps := maps w @ [[]]\<rparr>) w'" and "live w s"
  shows "keys_of w' s = keys_of w s"
proof (cases s)
  case SetNil
  then show ?thesis by (simp add: keys_of_def)
next
  case (SetRef a)
  with assms(2) have "a \<noteq> length (maps w)" by (simp add: live_def)
  with assms(1) SetRef have "keys_of w' s = keys_of (w\<lparr>maps := maps w @ [[]]\<rparr>) s"
    by (simp add: only_changes_def)
  with assms(2) show ?thesis by (simp add: keys_of_old_map)
qed

lemma only_changes_new_live:
  assumes "only_changes (length (maps w)) (w\<lparr>maps := maps w @ [[]]\<rparr>) w'"
  shows "live w' (SetRef (length (maps w)))" and "\<not> live w (SetRef (length (maps w)))"
  using assms by (simp_all add: only_changes_def live_def)

lemma Intersection_result:
  assumes "live w s" and "live w s2"
  shows "\<exists>w'. Intersection s s2 w = Inr (SetRef (length (maps w)), w')
           \<and> only_changes (length (maps w)) (w\<lparr>maps := maps w @ [[]]\<rparr>) w'
           \<and> set (keys_of w' (SetRef (length (maps w))))
               = set (filter (Has w s2) (keys_of w s))"
proof -
  let ?n = "length (maps w)" and ?w1 = "w\<lparr>maps := maps w @ [[]]\<rparr>"
  have n: "?n < length (maps ?w1)" by simp
  from Intersection_loop_result [OF n live_not_new [OF assms(2)], of "keys_of ?w1 s"]
  obtain w' where
    l: "Intersection_loop (keys_of ?w1 s) s2 (SetRef ?n) ?w1 = Inr w'"
       "only_changes ?n ?w1 w'"
       "set (keys_of w' (SetRef ?n))
          = set (keys_of ?w1 (SetRef ?n)) \<union> set (filter (Has ?w1 s2) (keys_of ?w1 s))"
    by blast
  have i: "Intersection s s2 w = Inr (SetRef ?n, w')"
    by (simp add: Intersection_def NewSet_empty l(1))
  have k: "set (keys_of w' (SetRef ?n)) = set (filter (Has w s2) (keys_of w s))"
    using l(3)
    by (simp only: keys_of_new_map keys_of_old_map [OF assms(1)] Has_old_map [OF assms(2)])
       simp
  from i l(2) k show ?thesis by blast
qed

lemma Difference_result:
  assumes "live w s" and "live w s2"
  shows "\<exists>w'. Difference s s2 w = Inr (SetRef (length (maps w)), w')
           \<and> only_changes (length (maps w)) (w\<lparr>maps := maps w @ [[]]\<rparr>) w'
           \<and> set (keys_of w' (SetRef (length (maps w))))
               = set (filter (\<lambda>x. \<not> Has w s2 x) (keys_of w s))"
proof -
  let ?n = "length (maps w)" and ?w1 = "w\<lparr>maps := maps w @ [[]]\<rparr>"
  have n: "?n < length (maps ?w1)" by simp
  from Difference_loop_result [OF n live_not_new [OF assms(2)], of "keys_of ?w1 s"]
  obtain w' where
    l: "Difference_loop (keys_of ?w1 s) s2 (SetRef ?n) ?w1 = Inr w'"
       "only_changes ?n ?w1 w'"
       "set (keys_of w' (SetRef ?n))
          = set (keys_of ?w1 (SetRef ?n))
            \<union> set (filter (\<lambda>x. \<not> Has ?w1 s2 x) (keys_of ?w1 s))"
    by blast
  have i: "Difference s s2 w = Inr (SetRef ?n, w')"
    by (simp add: Difference_def NewSet_empty l(1))
  have k: "set (keys_of w' (SetRef ?n)) = set (filter (\<lambda>x. \<not> Has w s2 x) (keys_of w s))"
    using l(3)
    by (simp only: keys_of_new_map keys_of_old_map [OF assms(1)] Has_old_map [OF assms(2)])
       simp
  from i l(2) k show ?thesis by blast
qed

lemma Filter_result:
  assumes "live w s"
  shows "\<exists>w'. Filter s pattern w = Inr (SetRef (length (maps w)), w')
           \<and> only_changes (length (maps w)) (w\<lparr>maps := maps w @ [[]]\<rparr>) w'
           \<and> set (keys_of w' (SetRef (length (maps w))))
               = set (filter (\<lambda>x. Match pattern x = Inr True) (keys_of w s))"
proof -
  let ?n = "length (maps w)" and ?w1 = "w\<lparr>maps := maps w @ [[]]\<rparr>"
  have n: "?n < length (maps ?w1)" by simp
  from Filter_loop_result [OF n, of "keys_of ?w1 s" pattern]
  obtain w' where
    l: "Filter_loop (keys_of ?w1 s) pattern (SetRef ?n) ?w1 = Inr w'"
       "only_changes ?n ?w1 w'"
       "set (keys_of w' (SetRef ?n))
          = set (keys_of ?w1 (SetRef ?n))
            \<union> set (filter (\<lambda>x. Match pattern x = Inr True) (keys_of ?w1 s))"
    by blast
  have i: "Filter s pattern w = Inr (SetRef ?n, w')"
    by (simp add: Filter_def NewSet_empty l(1))
  have k: "set (keys_of w' (SetRef ?n))
             = set (filter (\<lambda>x. Match pattern x = Inr True) (keys_of w s))"
    using l(3) by (simp only: keys_of_new_map keys_of_old_map [OF assms(1)]) simp
  from i l(2) k show ?thesis by blast
qed

lemma Match_single_star: "Match ''*'' name = Inr (Separator \<notin> set name)"
  by (subst Match.simps) (simp add: scanChunk_def)

text \<open>
  Claim C7. For Sets \<open>A\<close> and \<open>B\<close> of the store, \<open>A.Intersection(B)\<close> returns a Set that
  has \<open>x\<close> exactly when \<open>A\<close> has \<open>x\<close> and \<open>B\<close> has \<open>x\<close>, for every string \<open>x\<close>; this holds
  for the membership of \<open>A\<close> and \<open>B\<close> before the call and after it.
\<close>

theorem Intersection_Has_iff:
  assumes "live w A" and "live w B"
  shows "\<exists>res w'. Intersection A B w = Inr (res, w')
           \<and> (\<forall>x. Has w' res x \<longleftrightarrow> Has w A x \<and> Has w B x)
           \<and> (\<forall>x. Has w' res x \<longleftrightarrow> Has w' A x \<and> Has w' B x)"
proof -
  from Intersection_result [OF assms] obtain w' where
    r: "Intersection A B w = Inr (SetRef (length (maps w)), w')"
       "only_changes (length (maps w)) (w\<lparr>maps := maps w @ [[]]\<rparr>) w'"
       "set (keys_of w' (SetRef (length (maps w)))) = set (filter (Has w B) (keys_of w A))"
    by blast
  have a: "keys_of w' A = keys_of w A" and b: "keys_of w' B = keys_of w B"
    using only_changes_new_keys [OF r(2)] assms by simp_all
  have pre: "Has w' (SetRef (length (maps w))) x \<longleftrightarrow> Has w A x \<and> Has w B x" for x
    using r(3) by (auto simp: Has_def)
  have post: "Has w' (SetRef (length (maps w))) x \<longleftrightarrow> Has w' A x \<and> Has w' B x" for x
    using pre [of x] a b by (simp add: Has_def)
  from r(1) pre post show ?thesis by blast
qed

theorem Intersection_Has_iff_witness:
  "\<exists>res w'. Intersection (SetRef 0) (SetRef 1)
               \<lparr>maps = [[''a.txt'', ''b.go''], [''b.go'', ''c.go'']], stdout = []\<rparr>
             = Inr (res, w')
           \<and> Has w' res ''b.go'' \<and> \<not> Has w' res ''a.txt'' \<and> \<not> Has w' res ''c.go''"
proof -
  let ?w = "\<lparr>maps = [[''a.txt'', ''b.go''], [''b.go'', ''c.go'']], stdout = []\<rparr>"
  have l: "live ?w (SetRef 0)" "live ?w (SetRef 1)" by (simp_all add: live_def)
  from Intersection_Has_iff [OF l] obtain res w' where
    r: "Intersection (SetRef 0) (SetRef 1) ?w = Inr (res, w')"
       "\<And>x. Has w' res x \<longleftrightarrow> Has ?w (SetRef 0) x \<and> Has ?w (SetRef 1) x"
    by blast
  have "Has w' res ''b.go''" "\<not> Has w' res ''a.txt''" "\<not> Has w' res ''c.go''"
    unfolding r(2) by (simp_all add: Has_def keys_of_def)
  with r(1) show ?thesis by blast
qed

text \<open>
  Claim C10. For Sets \<open>A\<close> and \<open>B\<close> of the store and every pattern, each of
  \<open>A.Intersection(B)\<close>, \<open>A.Difference(B)\<close> and \<open>A.Filter(pattern)\<close> returns a reference to
  a map object that the call has made (it is none of the store before the call, so
  neither \<open>A\<close> nor \<open>B\<close>), and after the call \<open>A\<close>, \<open>B\<close> and every other Set of the store
  before the call have the members they had.
\<close>

theorem set_operations_leave_operands:
  assumes "live w A" and "live w B"
  shows "(\<exists>res w'. Intersection A B w = Inr (res, w')
            \<and> \<not> live w res \<and> live w' res \<and> res \<noteq> A \<and> res \<noteq> B
            \<and> (\<forall>x. Has w' A x = Has w A x) \<and> (\<forall>x. Has w' B x = Has w B x)
            \<and> (\<forall>s x. live w s \<longrightarrow> Has w' s x = Has w s x))
       \<and> (\<exists>res w'. Difference A B w = Inr (res, w')
            \<and> \<not> live w res \<and> live w' res \<and> res \<noteq> A \<and> res \<noteq> B
            \<and> (\<forall>x. Has w' A x = Has w A x) \<and> (\<forall>x. Has w' B x = Has w B x)
            \<and> (\<forall>s x. live w s \<longrightarrow> Has w' s x = Has w s x))
       \<and> (\<exists>res w'. Filter A pattern w = Inr (res, w')
            \<and> \<not> live w res \<and> live w' res \<and> res \<noteq> A \<and> res \<noteq> B
            \<and> (\<forall>x. Has w' A x = Has w A x) \<and> (\<forall>x. Has w' B x = Has w B x)
            \<and> (\<forall>s x. live w s \<longrightarrow> Has w' s x = Has w s x))"
proof -
  let ?n = "length (maps w)" and ?w1 = "w\<lparr>maps := maps w @ [[]]\<rparr>"
  have frame: "\<not> live w (SetRef ?n) \<and> live w' (SetRef ?n) \<and> SetRef ?n \<noteq> A \<and> SetRef ?n \<noteq> B
            \<and> (\<forall>x. Has w' A x = Has w A x) \<and> (\<forall>x. Has w' B x = Has w B x)
            \<and> (\<forall>s x. live w s \<longrightarrow> Has w' s x = Has w s x)"
    if oc: "only_changes ?n ?w1 w'" for w'
  proof -
    have h: "Has w' s x = Has w s x" if "live w s" for s x
      using only_changes_new_keys [OF oc that] by (simp add: Has_def)
    from only_changes_new_live [OF oc] live_not_new [OF assms(1)] live_not_new [OF assms(2)]
      h [OF assms(1)] h [OF assms(2)] h
    show ?thesis by (metis (full_types))
  qed
  from Intersection_result [OF assms] frame
  have 1: "\<exists>res w'. Intersection A B w = Inr (res, w')
            \<and> \<not> live w res \<and> live w' res \<and> res \<noteq> A \<and> res \<noteq> B
            \<and> (\<forall>x. Has w' A x = Has w A x) \<and> (\<forall>x. Has w' B x = Has w B x)
            \<and> (\<forall>s x. live w s \<longrightarrow> Has w' s x = Has w s x)"
    by blast
  from Difference_result [OF assms] frame
  have 2: "\<exists>res w'. Difference A B w = Inr (res, w')
            \<and> \<not> live w res \<and> live w' res \<and> res \<noteq> A \<and> res \<noteq> B
            \<and> (\<forall>x. Has w' A x = Has w A x) \<and> (\<forall>x. Has w' B x = Has w B x)
            \<and> (\<forall>s x. live w s \<longrightarrow> Has w' s x = Has w s x)"
    by blast
  from Filter_result [OF assms(1), of pattern] frame
  have 3: "\<exists>res w'. Filter A pattern w = Inr (res, w')
            \<and> \<not> live w res \<and> live w' res \<and> res \<noteq> A \<and> res \<noteq> B
            \<and> (\<forall>x. Has w' A x = Has w A x) \<and> (\<forall>x. Has w' B x = Has w B x)
            \<and> (\<forall>s x. live w s \<longrightarrow> Has w' s x = Has w s x)"
    by blast
  from 1 2 3 show ?thesis by (intro conjI)
qed

theorem set_operations_leave_operands_witness:
  "(\<exists>res w'. Intersection (SetRef 0) (SetRef 1)
                \<lparr>maps = [[''a.txt'', ''b.go''], [''b.go'', ''c.go'']], stdout = []\<rparr>
              = Inr (res, w')
            \<and> res \<noteq> SetRef 0 \<and> res \<noteq> SetRef 1
            \<and> Has w' (SetRef 0) ''a.txt'' \<and> \<not> Has w' (SetRef 0) ''c.go''
            \<and> Has w' (SetRef 1) ''c.go'' \<and> \<not> Has w' (SetRef 1) ''a.txt'')
   \<and> (\<exists>res w'. Difference (SetRef 0) (SetRef 1)
                \<lparr>maps = [[''a.txt'', ''b.go''], [''b.go'', ''c.go'']], stdout = []\<rparr>
              = Inr (res, w')
            \<and> res \<noteq> SetRef 0 \<and> res \<noteq> SetRef 1
            \<and> Has w' (SetRef 0) ''b.go'' \<and> \<not> Has w' (SetRef 0) ''c.go''
            \<and> Has w' (SetRef 1) ''b.go'' \<and> \<not> Has w' (SetRef 1) ''a.txt'')
   \<and> (\<exists>res w'. Filter (SetRef 0) ''*.go''
                \<lparr>maps = [[''a.txt'', ''b.go''], [''b.go'', ''c.go'']], stdout = []\<rparr>
              = Inr (res, w')
            \<and> res \<noteq> SetRef 0 \<and> res \<noteq> SetRef 1
            \<and> Has w' (SetRef 0) ''a.txt'' \<and> \<not> Has w' (SetRef 0) ''c.go''
            \<and> Has w' (SetRef 1) ''c.go'' \<and> \<not> Has w' (SetRef 1) ''a.txt'')"
proof -
  let ?w = "\<lparr>maps = [[''a.txt'', ''b.go''], [''b.go'', ''c.go'']], stdout = []\<rparr>"
  have l: "live ?w (SetRef 0)" "live ?w (SetRef 1)" by (simp_all add: live_def)
  have h: "Has ?w (SetRef 0) ''a.txt''" "\<not> Has ?w (SetRef 0) ''c.go''"
    "Has ?w (SetRef 0) ''b.go''" "Has ?w (SetRef 1) ''b.go''"
    "Has ?w (SetRef 1) ''c.go''" "\<not> Has ?w (SetRef 1) ''a.txt''"
    by (simp_all add: Has_def keys_of_def)
  note t = set_operations_leave_operands [OF l, of "''*.go''"]
  from t [THEN conjunct1] h have 1:
    "\<exists>res w'. Intersection (SetRef 0) (SetRef 1) ?w = Inr (res, w')
            \<and> res \<noteq> SetRef 0 \<and> res \<noteq> SetRef 1
            \<and> Has w' (SetRef 0) ''a.txt'' \<and> \<not> Has w' (SetRef 0) ''c.go''
            \<and> Has w' (SetRef 1) ''c.go'' \<and> \<not> Has w' (SetRef 1) ''a.txt''"
    by metis
  from t [THEN conjunct2, THEN conjunct1] h have 2:
    "\<exists>res w'. Difference (SetRef 0) (SetRef 1) ?w = Inr (res, w')
            \<and> res \<noteq> SetRef 0 \<and> res \<noteq> SetRef 1
            \<and> Has w' (SetRef 0) ''b.go'' \<and> \<not> Has w' (SetRef 0) ''c.go''
            \<and> Has w' (SetRef 1) ''b.go'' \<and> \<not> Has w' (SetRef 1) ''a.txt''"
    by metis
  from t [THEN conjunct2, THEN conjunct2] h have 3:
    "\<exists>res w'. Filter (SetRef 0) ''*.go'' ?w = Inr (res, w')
            \<and> res \<noteq> SetRef 0 \<and> res \<noteq> SetRef 1
            \<and> Has w' (SetRef 0) ''a.txt'' \<and> \<not> Has w' (SetRef 0) ''c.go''
            \<and> Has w' (SetRef 1) ''c.go'' \<and> \<not> Has w' (SetRef 1) ''a.txt''"
    by metis
  from 1 2 3 show ?thesis by (intro conjI)
qed

text \<open>
  Claim C4 (as stated it fails). The set of "a.txt" and "c/d.go", filtered with the
  pattern "*": the result is the set of "a.txt" alone, since the star of
  \<open>filepath.Match\<close> does not run over a path separator.
\<close>

theorem Filter_star_counterexample:
  "Filter (SetRef 0) ''*'' \<lparr>maps = [[''a.txt'', ''c/d.go'']], stdout = []\<rparr>
     = Inr (SetRef 1, \<lparr>maps = [[''a.txt'', ''c/d.go''], [''a.txt'']], stdout = []\<rparr>)
   \<and> Has \<lparr>maps = [[''a.txt'', ''c/d.go'']], stdout = []\<rparr> (SetRef 0) ''c/d.go''
   \<and> \<not> Has \<lparr>maps = [[''a.txt'', ''c/d.go''], [''a.txt'']], stdout = []\<rparr> (SetRef 1) ''c/d.go''"
  by (simp add: Filter_def NewSet_empty keys_of_def Match_single_star Separator_def Add_def
        Has_def)

text \<open>
  Claim C4 (amended). For every Set \<open>A\<close> of the store, \<open>A.Filter("*")\<close> returns a Set
  whose elements are exactly the elements of \<open>A\<close> that contain no path separator; it
  has the elements of \<open>A\<close> when no element of \<open>A\<close> contains a path separator.
\<close>

theorem Filter_star_no_separator:
  assumes "live w A"
  shows "\<exists>res w'. Filter A ''*'' w = Inr (res, w')
           \<and> (\<forall>x. Has w' res x \<longleftrightarrow> Has w A x \<and> Separator \<notin> set x)
           \<and> ((\<forall>x. Has w A x \<longrightarrow> Separator \<notin> set x) \<longrightarrow> (\<forall>x. Has w' res x \<longleftrightarrow> Has w A x))"
proof -
  from Filter_result [OF assms, of "''*''"] obtain w' where
    r: "Filter A ''*'' w = Inr (SetRef (length (maps w)), w')"
       "set (keys_of w' (SetRef (length (maps w))))
          = set (filter (\<lambda>x. Match ''*'' x = Inr True) (keys_of w A))"
    by blast
  have m: "Has w' (SetRef (length (maps w))) x \<longleftrightarrow> Has w A x \<and> Separator \<notin> set x" for x
    using r(2) by (auto simp: Has_def Match_single_star)
  from r(1) m show ?thesis by blast
qed

theorem Filter_star_no_separator_witness:
  "\<exists>res w'. Filter (SetRef 0) ''*'' \<lparr>maps = [[''a.txt'', ''c/d.go'']], stdout = []\<rparr>
               = Inr (res, w')
           \<and> Has w' res ''a.txt'' \<and> \<not> Has w' res ''c/d.go'' \<and> \<not> Has w' res ''b.go''"
proof -
  let ?w = "\<lparr>maps = [[''a.txt'', ''c/d.go'']], stdout = []\<rparr>"
  have l: "live ?w (SetRef 0)" by (simp add: live_def)
  from Filter_star_no_separator [OF l] obtain res w' where
    r: "Filter (SetRef 0) ''*'' ?w = Inr (res, w')"
       "\<And>x. Has w' res x \<longleftrightarrow> Has ?w (SetRef 0) x \<and> Separator \<notin> set x"
    by blast
  have "Has w' res ''a.txt''" "\<not> Has w' res ''c/d.go''" "\<not> Has w' res ''b.go''"
    unfolding r(2) by (simp_all add: Has_def keys_of_def Separator_def)
  with r(1) show ?thesis by blast
qed

end
